theory Spec2Isabelle
  imports Complex_Main "HOL-Library.Word" "HOL-Library.Product_Lexorder"
begin

unbundle bit_operations_syntax

section \<open>Machine types\<close>

type_synonym u8 = "8 word"
type_synonym u16 = "16 word"
type_synonym u32 = "32 word"
type_synonym GLuint = "32 word"
type_synonym ResourceId = "64 word"

text \<open>
  \<open>float\<close> values that the host computes with are idealised as real numbers, without
  rounding. The two \<open>float\<close> members of a point pick result, which the GPU writes and the
  host only compares, are values of \<open>ieee_float\<close> below. \<open>int\<close> and \<open>GLint\<close> values are 32-bit words read with \<open>sint\<close> where
  the source compares them as signed numbers. \<open>ResourceId()\<close>, the null id, is \<open>0\<close>.
  \<open>byte\<close> is an unsigned 8-bit type, and the host is little-endian.

  Where C++ leaves the behaviour undefined the model takes what the usual targets do:
  a shift by 32 or more gives 0, the negation of the least \<open>int32_t\<close> is itself, and an
  element read beyond the end of an array is the unspecified value of \<open>!\<close>. A division
  by zero of integers is a crash and is a branch of the model.
\<close>

type_synonym vec3 = "real \<times> real \<times> real"

text \<open>
  A \<open>float\<close> as it is read from a buffer: a NaN, an infinity or a number (the two
  zeros compare equal and are one value). \<open>float_less\<close> and \<open>float_eq\<close> are the
  operators \<open><\<close> and \<open>==\<close> of C++ on such values: both are false as soon as one
  operand is a NaN. \<open>float_rank\<close> places the values that are not NaN on one line.
\<close>

datatype ieee_float = NaN | MinusInf | Finite real | PlusInf

fun float_rank :: "ieee_float \<Rightarrow> int \<times> real" where
  "float_rank MinusInf = (- 1, 0)"
| "float_rank (Finite r) = (0, r)"
| "float_rank PlusInf = (1, 0)"
| "float_rank NaN = (2, 0)"

definition float_less :: "ieee_float \<Rightarrow> ieee_float \<Rightarrow> bool" where
  "float_less a b \<longleftrightarrow> a \<noteq> NaN \<and> b \<noteq> NaN \<and> float_rank a < float_rank b"

definition float_eq :: "ieee_float \<Rightarrow> ieee_float \<Rightarrow> bool" where
  "float_eq a b \<longleftrightarrow> a \<noteq> NaN \<and> b \<noteq> NaN \<and> a = b"

text \<open>Little-endian bytes as a number, and a \<open>uint32_t\<close> array seen as bytes and back.\<close>

fun le_bytes :: "u8 list \<Rightarrow> nat" where
  "le_bytes [] = 0"
| "le_bytes (b # bs) = unat b + 256 * le_bytes bs"

definition bytes_of_u32 :: "u32 \<Rightarrow> u8 list" where
  "bytes_of_u32 w = [ucast w, ucast (drop_bit 8 w), ucast (drop_bit 16 w), ucast (drop_bit 24 w)]"

definition u32_at :: "u8 list \<Rightarrow> nat \<Rightarrow> u32" where
  "u32_at bs i = word_of_nat (le_bytes (take 4 (drop (4 * i) bs)))"

definition u32s_of_bytes :: "nat \<Rightarrow> u8 list \<Rightarrow> u32 list" where
  "u32s_of_bytes n bs = map (u32_at bs) [0..<n]"

text \<open>The macros of \<open>common/common.h\<close>.\<close>

definition RDCMIN :: "'a::linorder \<Rightarrow> 'a \<Rightarrow> 'a" where
  "RDCMIN a b = (if a < b then a else b)"

definition RDCMAX :: "'a::linorder \<Rightarrow> 'a \<Rightarrow> 'a" where
  "RDCMAX a b = (if a > b then a else b)"

definition RDCCLAMP :: "'a::linorder \<Rightarrow> 'a \<Rightarrow> 'a \<Rightarrow> 'a" where
  "RDCCLAMP v mn mx = (if v < mn then mn else if v > mx then mx else v)"

section \<open>Data of the driver and of the debug manager\<close>

datatype GLenum =
    eGL_NONE
  | eGL_RENDERBUFFER
  | eGL_TEXTURE_1D
  | eGL_TEXTURE_2D
  | eGL_TEXTURE_2D_MULTISAMPLE
  | eGL_TEXTURE_RECTANGLE
  | eGL_TEXTURE_BUFFER
  | eGL_TEXTURE_3D
  | eGL_TEXTURE_CUBE_MAP
  | eGL_TEXTURE_1D_ARRAY
  | eGL_TEXTURE_2D_ARRAY
  | eGL_TEXTURE_CUBE_MAP_ARRAY
  | eGL_TEXTURE_2D_MULTISAMPLE_ARRAY
  | eGL_other u32

datatype CompType =
  Typeless | Float | UNorm | SNorm | UInt | SInt | UScaled | SScaled | Depth | Double

datatype Topology =
    Unknown | PointList | LineList | LineStrip | LineLoop
  | TriangleList | TriangleStrip | TriangleFan
  | LineList_Adj | LineStrip_Adj | TriangleList_Adj | TriangleStrip_Adj
  | PatchList

text \<open>The members of \<open>WrappedOpenGL::TextureData\<close> that the functions below read.\<close>

record TextureData =
  curType :: GLenum
  resource_name :: GLuint
  td_width :: u32
  td_height :: u32
  samples :: u32
  renderbufferReadTex :: GLuint
  renderbufferFBOs :: "GLuint \<times> GLuint"

text \<open>The members of \<open>TextureDescription\<close> (the result of \<open>GetTexture\<close>) that are read.\<close>

record TextureDescription =
  width :: u32
  height :: u32
  depth :: u32
  mips :: u32
  msSamp :: u32
  format_compType :: CompType

text \<open>
  The constants of \<open>data/glsl/debuguniforms.h\<close> and of \<open>gl_replay.h\<close> that the code
  names. The headers are not among the sources at hand, so the values are parameters.
  \<open>pickSize_bits\<close> is the width in bits of the unsigned integer type with which
  \<open>gl_replay.h\<close> declares the members \<open>pickIBSize\<close> and \<open>pickVBSize\<close>.
\<close>

record shared_consts =
  RESTYPE_TEX1D :: int
  RESTYPE_TEX2D :: int
  RESTYPE_TEX3D :: int
  RESTYPE_TEXCUBE :: int
  RESTYPE_TEX1DARRAY :: int
  RESTYPE_TEX2DARRAY :: int
  RESTYPE_TEXCUBEARRAY :: int
  RESTYPE_TEXRECT :: int
  RESTYPE_TEXBUFFER :: int
  RESTYPE_TEX2DMS :: int
  RESTYPE_TEXTYPEMAX :: int
  TEXDISPLAY_UINT_TEX :: int
  TEXDISPLAY_SINT_TEX :: int
  HGRAM_PIXELS_PER_TILE :: nat
  HGRAM_TILES_PER_BLOCK :: nat
  HGRAM_NUM_BUCKETS :: nat
  maxMeshPicks :: u32
  pickSize_bits :: nat

record HistogramUBOData =
  HistogramTextureResolution :: vec3
  HistogramSlice :: real
  HistogramMip :: u32
  HistogramNumSamples :: u32
  HistogramSample :: u32
  HistogramMin :: real
  HistogramMax :: real
  HistogramChannels :: u32
  HistogramFlags :: "u32 option"

datatype MeshMode =
    MESH_OTHER | MESH_TRIANGLE_LIST | MESH_TRIANGLE_STRIP | MESH_TRIANGLE_FAN
  | MESH_TRIANGLE_LIST_ADJ | MESH_TRIANGLE_STRIP_ADJ

record MeshPickUBOData =
  ubo_rayPos :: vec3
  ubo_rayDir :: vec3
  use_indices :: u32
  numVerts :: u32
  meshMode :: MeshMode
  unproject :: bool
  mvp :: "real list"
  coords :: "real \<times> real"
  viewport :: "real \<times> real"

datatype ubo_contents =
    UBO_unwritten
  | UBO_Histogram HistogramUBOData
  | UBO_MeshPick MeshPickUBOData

text \<open>
  The result buffer of the mesh-pick pass as the host reads it: the counter in the first
  word, and the 16-byte entries after the 16-byte header seen through each of the two
  local \<open>struct PickResult\<close> layouts.
\<close>

record TrianglePickResult =
  tri_vertid :: u32
  intersectionPoint :: vec3

record PointPickResult =
  pt_vertid :: u32
  pt_idx :: u32
  pt_len :: ieee_float
  pt_depth :: ieee_float

record pick_buffer =
  hdr_numResults :: u32
  as_triangle_results :: "TrianglePickResult list"
  as_point_results :: "PointPickResult list"

section \<open>The GL state that the functions observe and change\<close>

datatype buffer_target =
  eGL_UNIFORM_BUFFER | eGL_SHADER_STORAGE_BUFFER | eGL_COPY_READ_BUFFER

datatype framebuffer_target = eGL_DRAW_FRAMEBUFFER | eGL_READ_FRAMEBUFFER

datatype gl_context = ReplayCtx | DebugCtx

datatype gl_object = TextureObject GLuint | RenderbufferObject GLuint

datatype gl_call =
    MakeCurrent gl_context
  | GetIntegerv framebuffer_target
  | BindFramebuffer framebuffer_target GLuint
  | BlitFramebuffer u32 u32
  | BindBufferBase buffer_target nat GLuint
  | BindBufferRange buffer_target nat GLuint nat nat
  | MapBufferRange buffer_target
  | UnmapBuffer buffer_target
  | ActiveTexture int
  | BindTexture GLenum GLuint
  | BindSampler int GLuint
  | GetTextureParameteriv_MAX_LEVEL GLuint GLenum
  | TextureParameteriv_MAX_LEVEL GLuint GLenum u32
  | ClearBufferData buffer_target
  | UseProgram GLuint
  | DispatchCompute int int int
  | MemoryBarrier
  | BindBuffer buffer_target GLuint
  | GetBufferParameteriv_SIZE buffer_target
  | GetBufferSubData buffer_target nat nat
  | BufferSubData buffer_target nat nat
  | DeleteBuffers GLuint
  | GenBuffers
  | NamedBufferData GLuint nat
  | MapNamedBuffer GLuint
  | UnmapNamedBuffer GLuint

text \<open>
  One record stands for the GL state: the objects are shared by the two contexts, and
  the binding points are kept once. \<open>calls\<close> lists every entry point invoked, in order.
\<close>

record GLState =
  calls :: "gl_call list"
  current_context :: gl_context
  draw_framebuffer :: GLuint
  read_framebuffer :: GLuint
  framebuffer_attachment :: "GLuint \<Rightarrow> gl_object"
  image :: "gl_object \<Rightarrow> u8 list"
  TEXTURE_MAX_LEVEL :: "GLuint \<Rightarrow> u32"
  active_texture :: int
  texture_binding :: "int \<Rightarrow> GLenum \<times> GLuint"
  sampler_binding :: "int \<Rightarrow> GLuint"
  current_program :: GLuint
  indexed_binding :: "buffer_target \<Rightarrow> nat \<Rightarrow> GLuint"
  generic_binding :: "buffer_target \<Rightarrow> GLuint"
  buffer_size :: "GLuint \<Rightarrow> nat"
  buffer_data :: "GLuint \<Rightarrow> u8 list"
  uniform_data :: ubo_contents
  pick_results :: pick_buffer
  last_name :: GLuint

definition issue :: "gl_call \<Rightarrow> GLState \<Rightarrow> GLState" where
  "issue c g = g\<lparr>calls := calls g @ [c]\<rparr>"

text \<open>
  What a compute pass can depend on: the objects and the binding points that a shader
  reads through. The history of calls, the current context, the selector of the active
  texture unit, the framebuffer bindings, the non-indexed buffer bindings and the name
  counter are blanked.
\<close>

definition observable :: "GLState \<Rightarrow> GLState" where
  "observable g =
     g\<lparr>calls := [], current_context := DebugCtx, draw_framebuffer := 0, read_framebuffer := 0,
       active_texture := 0, generic_binding := (\<lambda>_. 0), last_name := 0\<rparr>"

text \<open>
  The compute programs are GLSL sources outside this code. \<open>compute_bytes\<close> gives the
  contents that a dispatch leaves in the buffer bound to shader-storage binding 0, and
  \<open>compute_pick\<close> what the mesh-pick program leaves in the pick result buffer, each as
  a function of the group counts and of the observable state at the dispatch.
\<close>

record gpu =
  compute_bytes :: "int \<times> int \<times> int \<Rightarrow> GLState \<Rightarrow> u8 list"
  compute_pick :: "int \<times> int \<times> int \<Rightarrow> GLState \<Rightarrow> pick_buffer"

definition fit :: "nat \<Rightarrow> u8 list \<Rightarrow> u8 list" where
  "fit n bs = take n (bs @ replicate n 0)"

definition MakeCurrentReplayContext :: "gl_context \<Rightarrow> GLState \<Rightarrow> GLState" where
  "MakeCurrentReplayContext c g = issue (MakeCurrent c) (g\<lparr>current_context := c\<rparr>)"

definition glGetIntegerv :: "framebuffer_target \<Rightarrow> GLState \<Rightarrow> GLuint \<times> GLState" where
  "glGetIntegerv t g =
     ((case t of eGL_DRAW_FRAMEBUFFER \<Rightarrow> draw_framebuffer g
               | eGL_READ_FRAMEBUFFER \<Rightarrow> read_framebuffer g),
      issue (GetIntegerv t) g)"

definition glBindFramebuffer :: "framebuffer_target \<Rightarrow> GLuint \<Rightarrow> GLState \<Rightarrow> GLState" where
  "glBindFramebuffer t fbo g =
     issue (BindFramebuffer t fbo)
       (case t of eGL_DRAW_FRAMEBUFFER \<Rightarrow> g\<lparr>draw_framebuffer := fbo\<rparr>
                | eGL_READ_FRAMEBUFFER \<Rightarrow> g\<lparr>read_framebuffer := fbo\<rparr>)"

definition glBlitFramebuffer :: "u32 \<Rightarrow> u32 \<Rightarrow> GLState \<Rightarrow> GLState" where
  "glBlitFramebuffer w h g =
     issue (BlitFramebuffer w h)
       (g\<lparr>image := (image g)
            (framebuffer_attachment g (draw_framebuffer g) :=
               image g (framebuffer_attachment g (read_framebuffer g)))\<rparr>)"

definition glBindBufferBase :: "buffer_target \<Rightarrow> nat \<Rightarrow> GLuint \<Rightarrow> GLState \<Rightarrow> GLState" where
  "glBindBufferBase t i b g =
     issue (BindBufferBase t i b)
       (g\<lparr>indexed_binding := (indexed_binding g)(t := (indexed_binding g t)(i := b)),
          generic_binding := (generic_binding g)(t := b)\<rparr>)"

definition glBindBufferRange ::
  "buffer_target \<Rightarrow> nat \<Rightarrow> GLuint \<Rightarrow> nat \<Rightarrow> nat \<Rightarrow> GLState \<Rightarrow> GLState" where
  "glBindBufferRange t i b off sz g =
     issue (BindBufferRange t i b off sz)
       (g\<lparr>indexed_binding := (indexed_binding g)(t := (indexed_binding g t)(i := b)),
          generic_binding := (generic_binding g)(t := b)\<rparr>)"

definition glBindBuffer :: "buffer_target \<Rightarrow> GLuint \<Rightarrow> GLState \<Rightarrow> GLState" where
  "glBindBuffer t b g = issue (BindBuffer t b) (g\<lparr>generic_binding := (generic_binding g)(t := b)\<rparr>)"

definition glMapBufferRange :: "buffer_target \<Rightarrow> GLState \<Rightarrow> GLState" where
  "glMapBufferRange t g = issue (MapBufferRange t) g"

text \<open>The writes through the mapped pointer become the contents at the unmap.\<close>

definition glUnmapBuffer :: "buffer_target \<Rightarrow> ubo_contents \<Rightarrow> GLState \<Rightarrow> GLState" where
  "glUnmapBuffer t cdata g = issue (UnmapBuffer t) (g\<lparr>uniform_data := cdata\<rparr>)"

definition glActiveTexture :: "int \<Rightarrow> GLState \<Rightarrow> GLState" where
  "glActiveTexture unit g = issue (ActiveTexture unit) (g\<lparr>active_texture := unit\<rparr>)"

definition glBindTexture :: "GLenum \<Rightarrow> GLuint \<Rightarrow> GLState \<Rightarrow> GLState" where
  "glBindTexture target texname g =
     issue (BindTexture target texname)
       (g\<lparr>texture_binding := (texture_binding g)(active_texture g := (target, texname))\<rparr>)"

definition glBindSampler :: "int \<Rightarrow> GLuint \<Rightarrow> GLState \<Rightarrow> GLState" where
  "glBindSampler unit sampler g =
     issue (BindSampler unit sampler) (g\<lparr>sampler_binding := (sampler_binding g)(unit := sampler)\<rparr>)"

definition glGetTextureParameterivEXT :: "GLuint \<Rightarrow> GLenum \<Rightarrow> GLState \<Rightarrow> u32 \<times> GLState" where
  "glGetTextureParameterivEXT texname target g =
     (TEXTURE_MAX_LEVEL g texname, issue (GetTextureParameteriv_MAX_LEVEL texname target) g)"

definition glTextureParameterivEXT :: "GLuint \<Rightarrow> GLenum \<Rightarrow> u32 \<Rightarrow> GLState \<Rightarrow> GLState" where
  "glTextureParameterivEXT texname target v g =
     issue (TextureParameteriv_MAX_LEVEL texname target v)
       (g\<lparr>TEXTURE_MAX_LEVEL := (TEXTURE_MAX_LEVEL g)(texname := v)\<rparr>)"

definition glClearBufferData :: "buffer_target \<Rightarrow> GLState \<Rightarrow> GLState" where
  "glClearBufferData t g =
     issue (ClearBufferData t)
       (g\<lparr>buffer_data := (buffer_data g)
            (generic_binding g t := replicate (buffer_size g (generic_binding g t)) 0)\<rparr>)"

definition glUseProgram :: "GLuint \<Rightarrow> GLState \<Rightarrow> GLState" where
  "glUseProgram p g = issue (UseProgram p) (g\<lparr>current_program := p\<rparr>)"

definition glDispatchCompute :: "gpu \<Rightarrow> int \<Rightarrow> int \<Rightarrow> int \<Rightarrow> GLState \<Rightarrow> GLState" where
  "glDispatchCompute G x y z g =
     (let out = indexed_binding g eGL_SHADER_STORAGE_BUFFER 0
      in issue (DispatchCompute x y z)
           (g\<lparr>buffer_data := (buffer_data g)
                (out := fit (buffer_size g out) (compute_bytes G (x, y, z) (observable g)))\<rparr>))"

text \<open>
  The same entry point when the mesh-pick program is current: its output is kept in
  the typed form in which the host reads it.
\<close>

definition glDispatchCompute_meshPick :: "gpu \<Rightarrow> int \<Rightarrow> int \<Rightarrow> int \<Rightarrow> GLState \<Rightarrow> GLState" where
  "glDispatchCompute_meshPick G x y z g =
     issue (DispatchCompute x y z) (g\<lparr>pick_results := compute_pick G (x, y, z) (observable g)\<rparr>)"

definition glMemoryBarrier :: "GLState \<Rightarrow> GLState" where
  "glMemoryBarrier g = issue MemoryBarrier g"

definition glGetBufferParameteriv :: "buffer_target \<Rightarrow> GLState \<Rightarrow> u32 \<times> GLState" where
  "glGetBufferParameteriv t g =
     (word_of_nat (buffer_size g (generic_binding g t)), issue (GetBufferParameteriv_SIZE t) g)"

text \<open>
  \<open>glGetBufferSubData\<close> copies \<open>sz\<close> bytes from offset \<open>off\<close> over the start of the host
  array \<open>dst\<close>; a range that leaves the buffer is a GL error and copies nothing.
\<close>

definition glGetBufferSubData ::
  "buffer_target \<Rightarrow> nat \<Rightarrow> nat \<Rightarrow> u8 list \<Rightarrow> GLState \<Rightarrow> u8 list \<times> GLState" where
  "glGetBufferSubData t off sz dst g =
     (let b = generic_binding g t
      in (if off + sz \<le> buffer_size g b
          then take sz (drop off (fit (buffer_size g b) (buffer_data g b))) @ drop sz dst
          else dst,
          issue (GetBufferSubData t off sz) g))"

definition glBufferSubData ::
  "buffer_target \<Rightarrow> nat \<Rightarrow> nat \<Rightarrow> u8 list \<Rightarrow> GLState \<Rightarrow> GLState" where
  "glBufferSubData t off sz src g =
     (let b = generic_binding g t
      in issue (BufferSubData t off sz)
           (if off + sz \<le> buffer_size g b
            then g\<lparr>buffer_data := (buffer_data g)
                   (b := take off (fit (buffer_size g b) (buffer_data g b)) @ take sz src
                         @ drop (off + sz) (fit (buffer_size g b) (buffer_data g b)))\<rparr>
            else g))"

definition glDeleteBuffers :: "GLuint \<Rightarrow> GLState \<Rightarrow> GLState" where
  "glDeleteBuffers b g =
     issue (DeleteBuffers b)
       (if b = 0 then g
        else g\<lparr>buffer_size := (buffer_size g)(b := 0), buffer_data := (buffer_data g)(b := [])\<rparr>)"

text \<open>\<open>glGenBuffers\<close> hands out a name that is not zero.\<close>

definition glGenBuffers :: "GLState \<Rightarrow> GLuint \<times> GLState" where
  "glGenBuffers g =
     (let n = (if last_name g + 1 = 0 then 1 else last_name g + 1)
      in (n, issue GenBuffers (g\<lparr>last_name := n\<rparr>)))"

definition glNamedBufferDataEXT :: "GLuint \<Rightarrow> nat \<Rightarrow> GLState \<Rightarrow> GLState" where
  "glNamedBufferDataEXT b sz g =
     issue (NamedBufferData b sz)
       (g\<lparr>buffer_size := (buffer_size g)(b := sz),
          buffer_data := (buffer_data g)(b := replicate sz 0)\<rparr>)"

definition glMapNamedBufferEXT :: "GLuint \<Rightarrow> GLState \<Rightarrow> GLState" where
  "glMapNamedBufferEXT b g = issue (MapNamedBuffer b) g"

definition glUnmapNamedBufferEXT :: "GLuint \<Rightarrow> GLState \<Rightarrow> GLState" where
  "glUnmapNamedBufferEXT b g = issue (UnmapNamedBuffer b) g"

section \<open>The replay state\<close>

record DebugRenderData =
  UBOs0 :: GLuint
  pointSampler :: GLuint
  pointNoMipSampler :: GLuint
  minmaxTileResult :: GLuint
  minmaxResult :: GLuint
  histogramBuf :: GLuint
  minmaxTileProgram :: "int \<Rightarrow> GLuint"
  histogramProgram :: "int \<Rightarrow> GLuint"
  minmaxResultProgram :: "int \<Rightarrow> GLuint"
  MS2Array :: GLuint
  Array2MS :: GLuint
  meshPickProgram :: GLuint
  pickResultBuf :: GLuint
  pickIBBuf :: GLuint
  pickVBBuf :: GLuint
  pickIBSize :: nat
  pickVBSize :: nat

text \<open>
  \<open>GetTexture\<close>, \<open>GetCurrentResource\<close> and \<open>GetBufferData\<close> are functions of other
  files; what they return is part of the state. \<open>rdc_log\<close> collects the \<open>RDCWARN\<close>
  lines and \<open>debug_messages\<close> the texts given to \<open>AddDebugMessage\<close>.
\<close>

record GLReplay =
  HasExt_ARB_compute_shader :: bool
  IsGLES :: bool
  m_Textures :: "ResourceId \<rightharpoonup> TextureData"
  GetTexture :: "ResourceId \<Rightarrow> TextureDescription"
  GetCurrentResource_name :: "ResourceId \<Rightarrow> GLuint"
  GetBufferData :: "ResourceId \<Rightarrow> nat \<Rightarrow> u8 list"
  DebugData :: DebugRenderData
  gl :: GLState
  rdc_log :: "string list"
  debug_messages :: "string list"

definition RDCWARN :: "string \<Rightarrow> GLReplay \<Rightarrow> GLReplay" where
  "RDCWARN msg s = s\<lparr>rdc_log := rdc_log s @ [msg]\<rparr>"

definition AddDebugMessage :: "string \<Rightarrow> GLReplay \<Rightarrow> GLReplay" where
  "AddDebugMessage msg s = s\<lparr>debug_messages := debug_messages s @ [msg]\<rparr>"

section \<open>\<open>GLReplay::GetMinMax\<close> and \<open>GLReplay::GetHistogram\<close>\<close>

text \<open>
  The \<open>switch(texDetails.curType)\<close> of both functions: the texture slot, the
  \<open>renderbuffer\<close> flag, and whether the \<open>default\<close> label (which warns and falls
  through to the 2D case) was taken.
\<close>

fun texSlot_switch :: "shared_consts \<Rightarrow> GLenum \<Rightarrow> int \<times> bool \<times> bool" where
  "texSlot_switch K eGL_RENDERBUFFER = (RESTYPE_TEX2D K, True, False)"
| "texSlot_switch K eGL_TEXTURE_1D = (RESTYPE_TEX1D K, False, False)"
| "texSlot_switch K eGL_TEXTURE_2D = (RESTYPE_TEX2D K, False, False)"
| "texSlot_switch K eGL_TEXTURE_2D_MULTISAMPLE = (RESTYPE_TEX2DMS K, False, False)"
| "texSlot_switch K eGL_TEXTURE_RECTANGLE = (RESTYPE_TEXRECT K, False, False)"
| "texSlot_switch K eGL_TEXTURE_BUFFER = (RESTYPE_TEXBUFFER K, False, False)"
| "texSlot_switch K eGL_TEXTURE_3D = (RESTYPE_TEX3D K, False, False)"
| "texSlot_switch K eGL_TEXTURE_CUBE_MAP = (RESTYPE_TEXCUBE K, False, False)"
| "texSlot_switch K eGL_TEXTURE_1D_ARRAY = (RESTYPE_TEX1DARRAY K, False, False)"
| "texSlot_switch K eGL_TEXTURE_2D_ARRAY = (RESTYPE_TEX2DARRAY K, False, False)"
| "texSlot_switch K eGL_TEXTURE_CUBE_MAP_ARRAY = (RESTYPE_TEXCUBEARRAY K, False, False)"
| "texSlot_switch K _ = (RESTYPE_TEX2D K, False, True)"

text \<open>The block \<open>if(renderbuffer) { ... }\<close>: blit to the texture that is sampled instead.\<close>

definition blit_renderbuffer :: "TextureData \<Rightarrow> GLState \<Rightarrow> GLState" where
  "blit_renderbuffer texDetails g0 =
     (let g = MakeCurrentReplayContext ReplayCtx g0;
          (curDrawFBO, g) = glGetIntegerv eGL_DRAW_FRAMEBUFFER g;
          (curReadFBO, g) = glGetIntegerv eGL_READ_FRAMEBUFFER g;
          g = glBindFramebuffer eGL_DRAW_FRAMEBUFFER (snd (renderbufferFBOs texDetails)) g;
          g = glBindFramebuffer eGL_READ_FRAMEBUFFER (fst (renderbufferFBOs texDetails)) g;
          g = glBlitFramebuffer (td_width texDetails) (td_height texDetails) g;
          g = glBindFramebuffer eGL_DRAW_FRAMEBUFFER curDrawFBO g;
          g = glBindFramebuffer eGL_READ_FRAMEBUFFER curReadFBO g
      in g)"

definition HistogramSample_of :: "u32 \<Rightarrow> TextureDescription \<Rightarrow> u32" where
  "HistogramSample_of sample details =
     (if sample = - 1 then - msSamp details else RDCCLAMP sample 0 (msSamp details - 1))"

definition HistogramSlice_of :: "TextureData \<Rightarrow> u32 \<Rightarrow> u32 \<Rightarrow> real" where
  "HistogramSlice_of texDetails sliceFace mip =
     (if curType texDetails \<noteq> eGL_TEXTURE_3D then real (unat sliceFace) + 0.001
      else real (unat (drop_bit (unat mip) sliceFace)))"

definition HistogramTextureResolution_of :: "TextureDescription \<Rightarrow> u32 \<Rightarrow> vec3" where
  "HistogramTextureResolution_of details mip =
     (real (unat (RDCMAX (drop_bit (unat mip) (width details)) 1)),
      real (unat (RDCMAX (drop_bit (unat mip) (height details)) 1)),
      real (unat (RDCMAX (drop_bit (unat mip) (depth details)) 1)))"

definition progIdx_of :: "shared_consts \<Rightarrow> int \<Rightarrow> CompType \<Rightarrow> int \<times> int" where
  "progIdx_of K texSlot ct =
     (let (progIdx, intIdx) = (texSlot, 0);
          (progIdx, intIdx) =
            (if ct = UInt then (progIdx OR TEXDISPLAY_UINT_TEX K, 1) else (progIdx, intIdx));
          (progIdx, intIdx) =
            (if ct = SInt then (progIdx OR TEXDISPLAY_SINT_TEX K, 2) else (progIdx, intIdx))
      in (progIdx, intIdx))"

definition blocks_of :: "shared_consts \<Rightarrow> real \<Rightarrow> int" where
  "blocks_of K res = \<lceil>res / real (HGRAM_PIXELS_PER_TILE K * HGRAM_TILES_PER_BLOCK K)\<rceil>"

text \<open>
  Binding the texture and clamping \<open>TEXTURE_MAX_LEVEL\<close>; the result is the local
  \<open>maxlevel\<close> (\<open>-1\<close> when nothing is to be restored).
\<close>

definition bind_and_clamp ::
  "shared_consts \<Rightarrow> DebugRenderData \<Rightarrow> int \<Rightarrow> GLenum \<Rightarrow> GLuint \<Rightarrow> TextureDescription
     \<Rightarrow> GLState \<Rightarrow> u32 \<times> GLState" where
  "bind_and_clamp K D texSlot target texname details g0 =
     (let g = glActiveTexture texSlot g0;
          g = glBindTexture target texname g;
          g = (if texSlot = RESTYPE_TEXRECT K \<or> texSlot = RESTYPE_TEXBUFFER K
               then glBindSampler texSlot (pointNoMipSampler D) g
               else glBindSampler texSlot (pointSampler D) g);
          clampmaxlevel = mips details - 1;
          (maxlevel, g) = glGetTextureParameterivEXT texname target g
      in if clampmaxlevel \<noteq> maxlevel
         then (maxlevel, glTextureParameterivEXT texname target clampmaxlevel g)
         else (- 1, g))"

definition restore_maxlevel :: "GLuint \<Rightarrow> GLenum \<Rightarrow> u32 \<Rightarrow> GLState \<Rightarrow> GLState" where
  "restore_maxlevel texname target maxlevel g =
     (if 0 \<le> sint maxlevel then glTextureParameterivEXT texname target maxlevel g else g)"

subsection \<open>\<open>GetMinMax\<close>\<close>

text \<open>
  From the \<open>switch\<close> to \<open>glUseProgram\<close>, that is everything before the first
  \<open>glDispatchCompute\<close>; the state that results is the state at the dispatch. The result
  carries the locals that the rest uses:
  \<open>(texname, target, maxlevel, progIdx, intIdx, blocksX, blocksY)\<close>.
\<close>

type_synonym pass_locals = "GLuint \<times> GLenum \<times> u32 \<times> int \<times> int \<times> int \<times> int"

definition GetMinMax_prepare ::
  "shared_consts \<Rightarrow> GLReplay \<Rightarrow> ResourceId \<Rightarrow> TextureData \<Rightarrow> u32 \<Rightarrow> u32 \<Rightarrow> u32
     \<Rightarrow> pass_locals \<times> GLReplay" where
  "GetMinMax_prepare K s0 texid texDetails sliceFace mip sample =
     (let details = GetTexture s0 texid;
          (texSlot, renderbuffer, unexpected) = texSlot_switch K (curType texDetails);
          s = (if unexpected then RDCWARN ''Unexpected texture type'' s0 else s0);
          target = curType texDetails;
          texname = resource_name texDetails;
          g = gl s;
          (texname, target, g) =
            (if renderbuffer
             then (renderbufferReadTex texDetails, eGL_TEXTURE_2D, blit_renderbuffer texDetails g)
             else (texname, target, g));
          g = MakeCurrentReplayContext DebugCtx g;
          g = glBindBufferBase eGL_UNIFORM_BUFFER 2 (UBOs0 (DebugData s)) g;
          g = glMapBufferRange eGL_UNIFORM_BUFFER g;
          cdata = \<lparr>HistogramTextureResolution = HistogramTextureResolution_of details mip,
                   HistogramSlice = HistogramSlice_of texDetails sliceFace mip,
                   HistogramMip = mip,
                   HistogramNumSamples = samples texDetails,
                   HistogramSample = HistogramSample_of sample details,
                   HistogramMin = 0,
                   HistogramMax = 1,
                   HistogramChannels = 0xf,
                   HistogramFlags = None\<rparr>;
          (progIdx, intIdx) = progIdx_of K texSlot (format_compType details);
          blocksX = blocks_of K (fst (HistogramTextureResolution cdata));
          blocksY = blocks_of K (fst (snd (HistogramTextureResolution cdata)));
          g = glUnmapBuffer eGL_UNIFORM_BUFFER (UBO_Histogram cdata) g;
          (maxlevel, g) = bind_and_clamp K (DebugData s) texSlot target texname details g;
          g = glBindBufferBase eGL_SHADER_STORAGE_BUFFER 0 (minmaxTileResult (DebugData s)) g;
          g = glUseProgram (minmaxTileProgram (DebugData s) progIdx) g
      in ((texname, target, maxlevel, progIdx, intIdx, blocksX, blocksY), s\<lparr>gl := g\<rparr>))"

text \<open>
  From the first \<open>glDispatchCompute\<close> on: the two passes, the read-back of
  \<open>Vec4f minmax[2]\<close> and the restore. The eight floats
  are returned as the 32-bit patterns found in the buffer.
\<close>

definition GetMinMax_reduce ::
  "gpu \<Rightarrow> pass_locals \<Rightarrow> GLReplay \<Rightarrow> bool \<times> (u32 list \<times> u32 list) \<times> GLReplay" where
  "GetMinMax_reduce G loc s =
     (case loc of (texname, target, maxlevel, progIdx, intIdx, blocksX, blocksY) \<Rightarrow>
        let D = DebugData s;
            g = glDispatchCompute G blocksX blocksY 1 (gl s);
            g = glMemoryBarrier g;
            g = glBindBufferBase eGL_SHADER_STORAGE_BUFFER 0 (minmaxResult D) g;
            g = glBindBufferBase eGL_SHADER_STORAGE_BUFFER 1 (minmaxTileResult D) g;
            g = glUseProgram (minmaxResultProgram D intIdx) g;
            g = glDispatchCompute G 1 1 1 g;
            g = glMemoryBarrier g;
            g = glBindBuffer eGL_COPY_READ_BUFFER (minmaxResult D) g;
            (minmax, g) = glGetBufferSubData eGL_COPY_READ_BUFFER 0 32 (replicate 32 0) g;
            g = restore_maxlevel texname target maxlevel g
        in (True, (u32s_of_bytes 4 minmax, u32s_of_bytes 4 (drop 16 minmax)), s\<lparr>gl := g\<rparr>))"

text \<open>
  \<open>out\<close> is what \<open>minval\<close> and \<open>maxval\<close> point to before the call; a call that fails
  leaves it as it is.
\<close>

definition GetMinMax ::
  "shared_consts \<Rightarrow> gpu \<Rightarrow> GLReplay \<Rightarrow> ResourceId \<Rightarrow> u32 \<Rightarrow> u32 \<Rightarrow> u32 \<Rightarrow> CompType
     \<Rightarrow> u32 list \<times> u32 list \<Rightarrow> bool \<times> (u32 list \<times> u32 list) \<times> GLReplay" where
  "GetMinMax K G s texid sliceFace mip sample typeHint out =
     (if texid = 0 \<or> m_Textures s texid = None then (False, out, s)
      else if \<not> HasExt_ARB_compute_shader s then (False, out, s)
      else
        let texDetails = the (m_Textures s texid);
            (loc, s1) = GetMinMax_prepare K s texid texDetails sliceFace mip sample
        in GetMinMax_reduce G loc s1)"

subsection \<open>\<open>GetHistogram\<close>\<close>

definition HistogramChannels_of :: "bool \<times> bool \<times> bool \<times> bool \<Rightarrow> u32" where
  "HistogramChannels_of channels =
     (case channels of (c0, c1, c2, c3) \<Rightarrow>
        let ch = 0;
            ch = (if c0 then ch OR 0x1 else ch);
            ch = (if c1 then ch OR 0x2 else ch);
            ch = (if c2 then ch OR 0x4 else ch);
            ch = (if c3 then ch OR 0x8 else ch)
        in ch)"

text \<open>\<open>cdata->HistogramMax = maxval + maxval * 1e-6f\<close>.\<close>

definition HistogramMax_of :: "real \<Rightarrow> real" where
  "HistogramMax_of maxval = maxval + maxval * (1 / 1000000)"

text \<open>
  Everything before \<open>glDispatchCompute\<close>, as for \<open>GetMinMax\<close>; it ends with the clear of
  the histogram buffer and \<open>glUseProgram\<close>.
\<close>

definition GetHistogram_prepare ::
  "shared_consts \<Rightarrow> GLReplay \<Rightarrow> ResourceId \<Rightarrow> TextureData \<Rightarrow> u32 \<Rightarrow> u32 \<Rightarrow> u32
     \<Rightarrow> real \<Rightarrow> real \<Rightarrow> bool \<times> bool \<times> bool \<times> bool \<Rightarrow> pass_locals \<times> GLReplay" where
  "GetHistogram_prepare K s0 texid texDetails sliceFace mip sample minval maxval channels =
     (let details = GetTexture s0 texid;
          (texSlot, renderbuffer, unexpected) = texSlot_switch K (curType texDetails);
          s = (if unexpected then RDCWARN ''Unexpected texture type'' s0 else s0);
          target = curType texDetails;
          texname = resource_name texDetails;
          g = gl s;
          (texname, target, g) =
            (if renderbuffer
             then (renderbufferReadTex texDetails, eGL_TEXTURE_2D, blit_renderbuffer texDetails g)
             else (texname, target, g));
          g = MakeCurrentReplayContext DebugCtx g;
          g = glBindBufferBase eGL_UNIFORM_BUFFER 2 (UBOs0 (DebugData s)) g;
          g = glMapBufferRange eGL_UNIFORM_BUFFER g;
          cdata = \<lparr>HistogramTextureResolution = HistogramTextureResolution_of details mip,
                   HistogramSlice = HistogramSlice_of texDetails sliceFace mip,
                   HistogramMip = mip,
                   HistogramNumSamples = samples texDetails,
                   HistogramSample = HistogramSample_of sample details,
                   HistogramMin = minval,
                   HistogramMax = HistogramMax_of maxval,
                   HistogramChannels = HistogramChannels_of channels,
                   HistogramFlags = Some 0\<rparr>;
          (progIdx, intIdx) = progIdx_of K texSlot (format_compType details);
          blocksX = blocks_of K (fst (HistogramTextureResolution cdata));
          blocksY = blocks_of K (fst (snd (HistogramTextureResolution cdata)));
          g = glUnmapBuffer eGL_UNIFORM_BUFFER (UBO_Histogram cdata) g;
          (maxlevel, g) = bind_and_clamp K (DebugData s) texSlot target texname details g;
          g = glBindBufferBase eGL_SHADER_STORAGE_BUFFER 0 (histogramBuf (DebugData s)) g;
          g = glClearBufferData eGL_SHADER_STORAGE_BUFFER g;
          g = glUseProgram (histogramProgram (DebugData s) progIdx) g
      in ((texname, target, maxlevel, progIdx, intIdx, blocksX, blocksY), s\<lparr>gl := g\<rparr>))"

text \<open>
  \<open>for(size_t i = 1; i < HGRAM_NUM_BUCKETS; i++) histogram[i] = histogram[i * 4];\<close>
  followed by \<open>histogram.resize(HGRAM_NUM_BUCKETS)\<close>.
\<close>

definition compress_uvec4 :: "nat \<Rightarrow> u32 list \<Rightarrow> u32 list" where
  "compress_uvec4 n histogram =
     take n (fold (\<lambda>i h. h[i := h ! (i * 4)]) [1..<n] histogram)"

text \<open>The counting pass, the read-back, the compression and the restore.\<close>

definition GetHistogram_count ::
  "shared_consts \<Rightarrow> gpu \<Rightarrow> pass_locals \<Rightarrow> GLReplay \<Rightarrow> bool \<times> u32 list \<times> GLReplay" where
  "GetHistogram_count K G loc s =
     (case loc of (texname, target, maxlevel, progIdx, intIdx, blocksX, blocksY) \<Rightarrow>
        let D = DebugData s;
            g = glDispatchCompute G blocksX blocksY 1 (gl s);
            g = glMemoryBarrier g;
            n = HGRAM_NUM_BUCKETS K;
            g = glBindBuffer eGL_COPY_READ_BUFFER (histogramBuf D) g;
            (raw, g) = glGetBufferSubData eGL_COPY_READ_BUFFER 0 (4 * 4 * n)
                         (replicate (4 * (n * 4)) 0) g;
            histogram = compress_uvec4 n (u32s_of_bytes (n * 4) raw);
            g = restore_maxlevel texname target maxlevel g
        in (True, histogram, s\<lparr>gl := g\<rparr>))"

definition GetHistogram ::
  "shared_consts \<Rightarrow> gpu \<Rightarrow> GLReplay \<Rightarrow> ResourceId \<Rightarrow> u32 \<Rightarrow> u32 \<Rightarrow> u32 \<Rightarrow> CompType
     \<Rightarrow> real \<Rightarrow> real \<Rightarrow> bool \<times> bool \<times> bool \<times> bool \<Rightarrow> u32 list
     \<Rightarrow> bool \<times> u32 list \<times> GLReplay" where
  "GetHistogram K G s texid sliceFace mip sample typeHint minval maxval channels histogram =
     (if minval \<ge> maxval \<or> texid = 0 then (False, histogram, s)
      else if m_Textures s texid = None then (False, histogram, s)
      else if \<not> HasExt_ARB_compute_shader s then (False, histogram, s)
      else
        let texDetails = the (m_Textures s texid);
            (loc, s1) =
              GetHistogram_prepare K s texid texDetails sliceFace mip sample minval maxval channels
        in GetHistogram_count K G loc s1)"

section \<open>Vertex index normalisation in \<open>GLReplay::PickVertex\<close>\<close>

text \<open>
  \<open>cfg.position.baseVertex\<close> is an \<open>int32_t\<close>; it is kept as a 32-bit word and read
  with \<open>sint\<close> where the source compares it with zero. \<open>uint32_t(-baseVertex)\<close> is the
  two's complement negation.
\<close>

definition idxclamp_of :: "u32 \<Rightarrow> u32" where
  "idxclamp_of baseVertex = (if sint baseVertex < 0 then - baseVertex else 0)"

text \<open>
  The body shared by the three loops:
  \<^verbatim>\<open>if(idx < idxclamp) idx = 0;
  else if(baseVertex < 0) idx -= idxclamp;
  else if(baseVertex > 0) idx += baseVertex;\<close>
\<close>

definition apply_baseVertex :: "u32 \<Rightarrow> u32 \<Rightarrow> u32 \<Rightarrow> u32" where
  "apply_baseVertex idxclamp baseVertex idx =
     (if idx < idxclamp then 0
      else if sint baseVertex < 0 then idx - idxclamp
      else if sint baseVertex > 0 then idx + baseVertex
      else idx)"

text \<open>
  How each loop fetches element \<open>i\<close> from the byte array \<open>idxs\<close> (little-endian host):
  \<open>idxs8[i]\<close> for stride 1, \<open>idxs16[i]\<close> for stride 2, and in the final \<open>else\<close>
  branch \<open>idxs[i]\<close>, where \<open>idxs\<close> is the \<open>byte *\<close> itself.
\<close>

definition idxs8 :: "u8 list \<Rightarrow> nat \<Rightarrow> u32" where
  "idxs8 idxs i = ucast (idxs ! i)"

definition idxs16 :: "u8 list \<Rightarrow> nat \<Rightarrow> u32" where
  "idxs16 idxs i = ucast (idxs ! (2 * i)) OR push_bit 8 (ucast (idxs ! (2 * i + 1)))"

definition fetch_idx :: "u32 \<Rightarrow> u8 list \<Rightarrow> nat \<Rightarrow> u32" where
  "fetch_idx indexByteStride idxs i =
     (if indexByteStride = 1 then idxs8 idxs i
      else if indexByteStride = 2 then idxs16 idxs i
      else ucast (idxs ! i))"

text \<open>
  One iteration of the loop over \<open>i\<close>; the loop state is
  \<open>(minIndex, maxIndex, outidxs)\<close>.
\<close>

definition idx_loop_body ::
  "u32 \<Rightarrow> u32 \<Rightarrow> u8 list \<Rightarrow> nat \<Rightarrow> u32 \<times> u32 \<times> u32 list \<Rightarrow> u32 \<times> u32 \<times> u32 list" where
  "idx_loop_body indexByteStride baseVertex idxs i st =
     (case st of (minIndex, maxIndex, outidxs) \<Rightarrow>
        let idx = apply_baseVertex (idxclamp_of baseVertex) baseVertex
                    (fetch_idx indexByteStride idxs i)
        in if i = 0 then (idx, idx, outidxs[i := idx])
           else (min idx minIndex, max idx maxIndex, outidxs[i := idx]))"

text \<open>
  The whole index pass for a bound index buffer: \<open>minIndex = 0\<close>,
  \<open>maxIndex = numIndices\<close>, \<open>outidxs.resize(numIndices)\<close>, then the loop
  \<open>for(i = 0; i < numIndices; i++)\<close>.
\<close>

definition normalise_indices :: "u32 \<Rightarrow> u32 \<Rightarrow> u32 \<Rightarrow> u8 list \<Rightarrow> u32 \<times> u32 \<times> u32 list" where
  "normalise_indices indexByteStride baseVertex numIndices idxs =
     fold (idx_loop_body indexByteStride baseVertex idxs) [0..<unat numIndices]
       (0, numIndices, replicate (unat numIndices) 0)"

section \<open>\<open>GLReplay::PickVertex\<close>\<close>

text \<open>The members of \<open>MeshFormat\<close> (\<open>cfg.position\<close>) and of \<open>MeshDisplay\<close> that are read.\<close>

record MeshFormat =
  indexResourceId :: ResourceId
  indexByteOffset :: "64 word"
  indexByteStride :: u32
  baseVertex :: u32
  vertexResourceId :: ResourceId
  vertexByteOffset :: "64 word"
  vertexByteStride :: u32
  numIndices :: u32
  topology :: Topology
  mf_unproject :: bool
  nearPlane :: real
  farPlane :: real

record MeshDisplay =
  position :: MeshFormat
  cam :: "real list option"
  ortho :: bool
  fov :: real
  aspect :: real

text \<open>
  Two computations use classes of other files: the ray and the pick matrix
  (\<open>Matrix4f\<close>, \<open>Camera\<close>; arguments \<open>width\<close>, \<open>height\<close>, \<open>cfg\<close>, \<open>x\<close>, \<open>y\<close>; result
  \<open>(rayPos, rayDir, mvp)\<close>), and the conversion of the vertices \<open>minIndex..maxIndex\<close> by
  \<open>HighlightCache::InterpretVertex\<close> (arguments \<open>oldData\<close>, \<open>minIndex\<close>, \<open>maxIndex\<close>,
  \<open>cfg\<close>; result the bytes of \<open>vbData\<close>). They are parameters.
\<close>

record externals =
  pick_ray :: "u32 \<Rightarrow> u32 \<Rightarrow> MeshDisplay \<Rightarrow> u32 \<Rightarrow> u32 \<Rightarrow> vec3 \<times> vec3 \<times> real list"
  interpret_vertices :: "u8 list \<Rightarrow> u32 \<Rightarrow> u32 \<Rightarrow> MeshDisplay \<Rightarrow> u8 list"
  CreateCShaderProgram :: "string \<Rightarrow> int \<Rightarrow> int \<Rightarrow> GLuint"

datatype crash = DivideByZero

fun meshMode_switch :: "Topology \<Rightarrow> MeshMode \<times> bool" where
  "meshMode_switch TriangleList = (MESH_TRIANGLE_LIST, True)"
| "meshMode_switch TriangleStrip = (MESH_TRIANGLE_STRIP, True)"
| "meshMode_switch TriangleFan = (MESH_TRIANGLE_FAN, True)"
| "meshMode_switch TriangleList_Adj = (MESH_TRIANGLE_LIST_ADJ, True)"
| "meshMode_switch TriangleStrip_Adj = (MESH_TRIANGLE_STRIP_ADJ, True)"
| "meshMode_switch _ = (MESH_OTHER, False)"

subsection \<open>The staging buffers\<close>

text \<open>
  \<open>if(DebugData.pickIBBuf == 0 || DebugData.pickIBSize < numIndices * sizeof(uint32_t))\<close>
  and the same for the vertex buffer with \<open>(maxIndex + 1) * sizeof(Vec4f)\<close>. The products
  are \<open>size_t\<close> values of 64 bits; the sum \<open>maxIndex + 1\<close> is a \<open>uint32_t\<close> and wraps.
  The comparison is made on \<open>size_t\<close> values. The assignment to \<open>pickIBSize\<close> or
  \<open>pickVBSize\<close> keeps the low \<open>pickSize_bits\<close> bits of the product, and
  \<open>glNamedBufferDataEXT\<close> is given the whole product.
\<close>

definition required_IB :: "u32 \<Rightarrow> nat" where
  "required_IB n = unat n * 4"

definition required_VB :: "u32 \<Rightarrow> nat" where
  "required_VB maxIndex = unat (maxIndex + 1) * 16"

definition resize_pickIB :: "shared_consts \<Rightarrow> u32 \<Rightarrow> GLReplay \<Rightarrow> GLReplay" where
  "resize_pickIB K n s =
     (let D = DebugData s
      in if pickIBBuf D = 0 \<or> pickIBSize D < required_IB n
         then
           let g = glDeleteBuffers (pickIBBuf D) (gl s);
               (b, g) = glGenBuffers g;
               g = glBindBuffer eGL_SHADER_STORAGE_BUFFER b g;
               g = glNamedBufferDataEXT b (required_IB n) g
           in s\<lparr>DebugData := D\<lparr>pickIBBuf := b,
                                 pickIBSize := required_IB n mod 2 ^ pickSize_bits K\<rparr>,
                gl := g\<rparr>
         else s)"

definition resize_pickVB :: "shared_consts \<Rightarrow> u32 \<Rightarrow> GLReplay \<Rightarrow> GLReplay" where
  "resize_pickVB K maxIndex s =
     (let D = DebugData s
      in if pickVBBuf D = 0 \<or> pickVBSize D < required_VB maxIndex
         then
           let g = glDeleteBuffers (pickVBBuf D) (gl s);
               (b, g) = glGenBuffers g;
               g = glBindBuffer eGL_SHADER_STORAGE_BUFFER b g;
               g = glNamedBufferDataEXT b (required_VB maxIndex) g
           in s\<lparr>DebugData := D\<lparr>pickVBBuf := b,
                                 pickVBSize := required_VB maxIndex mod 2 ^ pickSize_bits K\<rparr>,
                gl := g\<rparr>
         else s)"

subsection \<open>The index pass: \<open>if(ib) { ... }\<close>\<close>

text \<open>
  The result is \<open>(minIndex, maxIndex)\<close> and the state. The products
  \<open>numIndices * indexByteStride\<close> are \<open>uint32_t\<close> products.
\<close>

definition index_pass ::
  "shared_consts \<Rightarrow> GLuint \<Rightarrow> MeshFormat \<Rightarrow> GLReplay \<Rightarrow> (u32 \<times> u32) \<times> GLReplay" where
  "index_pass K ib pos s0 =
     (let s = resize_pickIB K (numIndices pos) s0;
          total = numIndices pos * indexByteStride pos;
          idxs = replicate (unat total) 0;
          g = glBindBuffer eGL_COPY_READ_BUFFER ib (gl s);
          (bufsize, g) = glGetBufferParameteriv eGL_COPY_READ_BUFFER g;
          (idxs, g) = glGetBufferSubData eGL_COPY_READ_BUFFER (unat (indexByteOffset pos))
                        (unat (RDCMIN (bufsize - ucast (indexByteOffset pos)) total)) idxs g;
          (minIndex, maxIndex, outidxs) =
             normalise_indices (indexByteStride pos) (baseVertex pos) (numIndices pos) idxs;
          g = glBindBuffer eGL_SHADER_STORAGE_BUFFER (pickIBBuf (DebugData s)) g;
          g = glBufferSubData eGL_SHADER_STORAGE_BUFFER 0 (required_IB (numIndices pos))
                (concat (map bytes_of_u32 outidxs)) g
      in ((minIndex, maxIndex), s\<lparr>gl := g\<rparr>))"

subsection \<open>The vertex pass: "unpack and linearise the data"\<close>

definition vertex_pass ::
  "shared_consts \<Rightarrow> externals \<Rightarrow> MeshDisplay \<Rightarrow> u32 \<Rightarrow> u32 \<Rightarrow> GLReplay \<Rightarrow> crash + GLReplay" where
  "vertex_pass K X cfg minIndex maxIndex0 s0 =
     (let pos = position cfg;
          oldData = GetBufferData s0 (vertexResourceId pos) (unat (vertexByteOffset pos))
      in if vertexByteStride pos = 0 then Inl DivideByZero
         else
           let maxIndex = RDCMIN maxIndex0
                            (word_of_nat (length oldData div unat (vertexByteStride pos)));
               s = resize_pickVB K maxIndex s0;
               vbData = interpret_vertices X oldData minIndex maxIndex cfg;
               g = glBindBuffer eGL_SHADER_STORAGE_BUFFER (pickVBBuf (DebugData s)) (gl s);
               g = glBufferSubData eGL_SHADER_STORAGE_BUFFER 0 (required_VB maxIndex) vbData g
           in Inr (s\<lparr>gl := g\<rparr>))"

subsection \<open>Reducing the candidates to one vertex\<close>

definition vec3_minus :: "vec3 \<Rightarrow> vec3 \<Rightarrow> vec3" where
  "vec3_minus a b =
     (case a of (ax, ay, az) \<Rightarrow> case b of (bx, by, bz) \<Rightarrow> (ax - bx, ay - by, az - bz))"

definition Length :: "vec3 \<Rightarrow> real" where
  "Length v = (case v of (x, y, z) \<Rightarrow> sqrt (x * x + y * y + z * z))"

text \<open>
  The triangle branch. \<open>closest\<close> is the index of the entry that the pointer
  \<open>closest\<close> refers to; \<open>closestPickDistance\<close> is computed once, before the loop, and
  the loop body assigns only \<open>closest\<close>.
\<close>

definition closest_triangle_hit :: "u32 \<Rightarrow> vec3 \<Rightarrow> u32 \<Rightarrow> TrianglePickResult list \<Rightarrow> nat" where
  "closest_triangle_hit maxPicks rayPos numResults pickResults =
     (let closestPickDistance = Length (vec3_minus (intersectionPoint (pickResults ! 0)) rayPos)
      in fold (\<lambda>i closest.
                 let pickDistance = Length (vec3_minus (intersectionPoint (pickResults ! i)) rayPos)
                 in if pickDistance < closestPickDistance then i else closest)
           [1..<unat (RDCMIN maxPicks numResults)] 0)"

text \<open>
  The branch for points, lines and everything else. \<open>len\<close> and \<open>depth\<close> are
  \<open>float\<close> members, so the condition of the loop is made of float comparisons and is
  false for a pair of entries one of which has a NaN in a member that is compared.
\<close>

definition closer_point :: "PointPickResult \<Rightarrow> PointPickResult \<Rightarrow> bool" where
  "closer_point r c \<longleftrightarrow>
     float_less (pt_len r) (pt_len c) \<or>
     (float_eq (pt_len r) (pt_len c) \<and> float_less (pt_depth r) (pt_depth c)) \<or>
     (float_eq (pt_len r) (pt_len c) \<and> float_eq (pt_depth r) (pt_depth c)
        \<and> pt_vertid r < pt_vertid c)"

definition closest_point_hit :: "u32 \<Rightarrow> u32 \<Rightarrow> PointPickResult list \<Rightarrow> nat" where
  "closest_point_hit maxPicks numResults pickResults =
     fold (\<lambda>i closest. if closer_point (pickResults ! i) (pickResults ! closest) then i else closest)
       [1..<unat (RDCMIN maxPicks numResults)] 0"

definition resolve_pick :: "shared_consts \<Rightarrow> bool \<Rightarrow> vec3 \<Rightarrow> pick_buffer \<Rightarrow> u32" where
  "resolve_pick K isTriangleMesh rayPos buf =
     (if hdr_numResults buf > 0
      then if isTriangleMesh
           then tri_vertid (as_triangle_results buf !
                  closest_triangle_hit (maxMeshPicks K) rayPos (hdr_numResults buf)
                    (as_triangle_results buf))
           else pt_vertid (as_point_results buf !
                  closest_point_hit (maxMeshPicks K) (hdr_numResults buf) (as_point_results buf))
      else - 1)"

subsection \<open>The whole function\<close>

text \<open>
  From \<open>MakeCurrentReplayContext\<close> to \<open>glUnmapBuffer\<close>: the ray and the uniform block.
  The result carries \<open>rayPos\<close> and \<open>isTriangleMesh\<close>.
\<close>

definition upload_pick_uniforms ::
  "externals \<Rightarrow> GLReplay \<Rightarrow> u32 \<Rightarrow> u32 \<Rightarrow> MeshDisplay \<Rightarrow> u32 \<Rightarrow> u32
     \<Rightarrow> (vec3 \<times> bool) \<times> GLReplay" where
  "upload_pick_uniforms X s0 vp_width vp_height cfg x y =
     (let pos = position cfg;
          g = MakeCurrentReplayContext DebugCtx (gl s0);
          g = glUseProgram (meshPickProgram (DebugData s0)) g;
          (rayPos, rayDir, pickMVP) = pick_ray X vp_width vp_height cfg x y;
          g = glBindBufferBase eGL_UNIFORM_BUFFER 0 (UBOs0 (DebugData s0)) g;
          g = glMapBufferRange eGL_UNIFORM_BUFFER g;
          (mode, isTriangleMesh) = meshMode_switch (topology pos);
          cdata = \<lparr>ubo_rayPos = rayPos, ubo_rayDir = rayDir,
                   use_indices = (if indexByteStride pos \<noteq> 0 then 1 else 0),
                   numVerts = numIndices pos,
                   meshMode = mode,
                   unproject = mf_unproject pos,
                   mvp = pickMVP,
                   coords = (real (unat x), real (unat y)),
                   viewport = (real_of_int (sint vp_width), real_of_int (sint vp_height))\<rparr>;
          g = glUnmapBuffer eGL_UNIFORM_BUFFER (UBO_MeshPick cdata) g
      in ((rayPos, isTriangleMesh), s0\<lparr>gl := g\<rparr>))"

text \<open>
  The choice of \<open>ib\<close> and the index pass; without an index buffer \<open>minIndex\<close> and
  \<open>maxIndex\<close> keep their initial values \<open>0\<close> and \<open>numIndices\<close>.
\<close>

definition staged_indices ::
  "shared_consts \<Rightarrow> MeshFormat \<Rightarrow> GLReplay \<Rightarrow> (u32 \<times> u32) \<times> GLReplay" where
  "staged_indices K pos s =
     (let ib = (if indexByteStride pos \<noteq> 0 \<and> indexResourceId pos \<noteq> 0
                then GetCurrentResource_name s (indexResourceId pos) else 0)
      in if ib \<noteq> 0 then index_pass K ib pos s else ((0, numIndices pos), s))"

text \<open>
  Resetting the counter, binding, the dispatch and the read of \<open>numResults\<close>; the
  result buffer is mapped and unmapped when \<open>numResults > 0\<close>.
\<close>

definition dispatch_pick :: "gpu \<Rightarrow> MeshFormat \<Rightarrow> GLReplay \<Rightarrow> GLReplay" where
  "dispatch_pick G pos s =
     (let D = DebugData s;
          g = glBindBufferBase eGL_SHADER_STORAGE_BUFFER 0 (pickResultBuf D) (gl s);
          g = issue (BufferSubData eGL_SHADER_STORAGE_BUFFER 0 16)
                (g\<lparr>pick_results := (pick_results g)\<lparr>hdr_numResults := 0\<rparr>\<rparr>);
          g = glBindBufferBase eGL_SHADER_STORAGE_BUFFER 1 (pickVBBuf D) g;
          g = glBindBufferRange eGL_SHADER_STORAGE_BUFFER 2 (pickIBBuf D) 0
                (required_IB (numIndices pos)) g;
          g = glBindBufferBase eGL_SHADER_STORAGE_BUFFER 3 (pickResultBuf D) g;
          g = glDispatchCompute_meshPick G (uint (numIndices pos div 128 + 1)) 1 1 g;
          g = glMemoryBarrier g;
          g = glBindBuffer eGL_COPY_READ_BUFFER (pickResultBuf D) g;
          g = issue (GetBufferSubData eGL_COPY_READ_BUFFER 0 4) g;
          g = (if hdr_numResults (pick_results g) > 0
               then glUnmapNamedBufferEXT (pickResultBuf D)
                      (glMapNamedBufferEXT (pickResultBuf D) g)
               else g)
      in s\<lparr>gl := g\<rparr>)"

definition PickVertex ::
  "shared_consts \<Rightarrow> gpu \<Rightarrow> externals \<Rightarrow> GLReplay \<Rightarrow> u32 \<Rightarrow> u32 \<Rightarrow> u32 \<Rightarrow> MeshDisplay
     \<Rightarrow> u32 \<Rightarrow> u32 \<Rightarrow> crash + (u32 \<times> GLReplay)" where
  "PickVertex K G X s0 eventId vp_width vp_height cfg x y =
     (if \<not> HasExt_ARB_compute_shader s0 then Inr (- 1, s0)
      else
        let ((rayPos, isTriangleMesh), s) = upload_pick_uniforms X s0 vp_width vp_height cfg x y;
            ((minIndex, maxIndex), s) = staged_indices K (position cfg) s
        in case vertex_pass K X cfg minIndex maxIndex s of
             Inl e \<Rightarrow> Inl e
           | Inr s \<Rightarrow>
               let s = dispatch_pick G (position cfg) s
               in Inr (resolve_pick K isTriangleMesh rayPos (pick_results (gl s)), s))"



section \<open>The compute part of \<open>GLReplay::InitDebugData\<close>\<close>

text \<open>
  The blocks of \<open>InitDebugData\<close> from the comment "histogram/minmax data" to the
  creation of the pick buffers. \<open>CreateCShaderProgram\<close> is given the name of the
  embedded source and the two loop counters that make up the defines.
\<close>

definition compile_minmax_programs :: "externals \<Rightarrow> shared_consts \<Rightarrow> DebugRenderData \<Rightarrow> DebugRenderData" where
  "compile_minmax_programs X K D0 =
     fold (\<lambda>t D.
        fold (\<lambda>i D.
          let ix = int t;
              ix = (if i = 1 then ix OR TEXDISPLAY_UINT_TEX K else ix);
              ix = (if i = 2 then ix OR TEXDISPLAY_SINT_TEX K else ix);
              D = D\<lparr>minmaxTileProgram := (minmaxTileProgram D)
                      (ix := CreateCShaderProgram X ''glsl_minmaxtile_comp'' (int t) (int i))\<rparr>;
              D = D\<lparr>histogramProgram := (histogramProgram D)
                      (ix := CreateCShaderProgram X ''glsl_histogram_comp'' (int t) (int i))\<rparr>
          in if t = 1
             then D\<lparr>minmaxResultProgram := (minmaxResultProgram D)
                      (int i := CreateCShaderProgram X ''glsl_minmaxresult_comp'' (int t) (int i))\<rparr>
             else D)
          [0..<3] D)
       [1..<nat (RESTYPE_TEXTYPEMAX K + 1)] D0"

definition no_compute_minmax :: string where
  "no_compute_minmax = ''GL_ARB_compute_shader not supported, disabling min/max and histogram features.''"

definition no_compute_2dms :: string where
  "no_compute_2dms = ''GL_ARB_compute_shader not supported, disabling 2DMS save/load.''"

definition no_compute_meshpick :: string where
  "no_compute_meshpick = ''GL_ARB_compute_shader not supported, disabling mesh picking.''"

definition InitDebugData :: "shared_consts \<Rightarrow> externals \<Rightarrow> GLReplay \<Rightarrow> GLReplay" where
  "InitDebugData K X s0 =
     (let glesShadersAreComplete = \<not> IsGLES s0;
          hasCompute = HasExt_ARB_compute_shader s0;
          D = (DebugData s0)\<lparr>minmaxTileProgram := (\<lambda>_. 0), histogramProgram := (\<lambda>_. 0),
                              minmaxResultProgram := (\<lambda>_. 0)\<rparr>;
          D = (if glesShadersAreComplete \<and> hasCompute then compile_minmax_programs X K D else D);
          s = (if \<not> hasCompute
               then AddDebugMessage no_compute_minmax (RDCWARN no_compute_minmax s0) else s0);
          (b1, g) = glGenBuffers (gl s);
          (b2, g) = glGenBuffers g;
          (b3, g) = glGenBuffers g;
          D = D\<lparr>minmaxTileResult := b1, minmaxResult := b2, histogramBuf := b3\<rparr>;
          blockPixSize = HGRAM_PIXELS_PER_TILE K * HGRAM_TILES_PER_BLOCK K;
          maxBlocksNeeded = (16384 * 16384) div (blockPixSize * blockPixSize);
          byteSize = 2 * 16 * HGRAM_TILES_PER_BLOCK K * HGRAM_TILES_PER_BLOCK K * maxBlocksNeeded;
          g = glNamedBufferDataEXT b1 byteSize g;
          g = glNamedBufferDataEXT b2 (16 * 2) g;
          g = glNamedBufferDataEXT b3 (4 * 4 * HGRAM_NUM_BUCKETS K) g;
          (D, s) =
            (if glesShadersAreComplete \<and> hasCompute
             then (D\<lparr>MS2Array := CreateCShaderProgram X ''glsl_ms2array_comp'' 0 0,
                      Array2MS := CreateCShaderProgram X ''glsl_array2ms_comp'' 0 0\<rparr>, s)
             else (D\<lparr>MS2Array := 0, Array2MS := 0\<rparr>,
                   AddDebugMessage no_compute_2dms (RDCWARN no_compute_2dms s)));
          (D, s) =
            (if glesShadersAreComplete \<and> hasCompute
             then (D\<lparr>meshPickProgram := CreateCShaderProgram X ''glsl_mesh_comp'' 0 0\<rparr>, s)
             else (D\<lparr>meshPickProgram := 0\<rparr>,
                   AddDebugMessage no_compute_meshpick (RDCWARN no_compute_meshpick s)));
          D = D\<lparr>pickResultBuf := 0\<rparr>;
          (D, g) =
            (if meshPickProgram D \<noteq> 0
             then
               let (b, g) = glGenBuffers g;
                   g = glBindBuffer eGL_SHADER_STORAGE_BUFFER b g;
                   g = glNamedBufferDataEXT b (16 * unat (maxMeshPicks K) + 4 * 4) g
               in (D\<lparr>pickResultBuf := b, pickVBBuf := 0, pickIBBuf := 0,
                      pickVBSize := 0, pickIBSize := 0\<rparr>, g)
             else (D, g))
      in s\<lparr>DebugData := D, gl := g\<rparr>)"

section \<open>The reference computation of the index stream\<close>

text \<open>
  The raw index \<open>i\<close> of a buffer of 1-, 2- or 4-byte little-endian elements, and the
  normalised stream with its minimum and maximum, written from the specification's
  words and independent of the loops above.
\<close>

definition raw_index :: "nat \<Rightarrow> u8 list \<Rightarrow> nat \<Rightarrow> u32" where
  "raw_index stride bytes i = word_of_nat (le_bytes (take stride (drop (stride * i) bytes)))"

definition spec_normalise :: "u32 \<Rightarrow> u32 \<Rightarrow> u32" where
  "spec_normalise bv raw =
     (if sint bv < 0 \<and> raw < word_of_int (- sint bv) then 0
      else if sint bv < 0 then raw - word_of_int (- sint bv)
      else if 0 < sint bv then raw + bv
      else raw)"

definition spec_stream :: "nat \<Rightarrow> u32 \<Rightarrow> nat \<Rightarrow> u8 list \<Rightarrow> u32 list" where
  "spec_stream stride bv n bytes =
     map (\<lambda>i. spec_normalise bv (raw_index stride bytes i)) [0..<n]"

definition ref_min :: "u32 list \<Rightarrow> u32" where
  "ref_min xs = fold min (tl xs) (hd xs)"

definition ref_max :: "u32 list \<Rightarrow> u32" where
  "ref_max xs = fold max (tl xs) (hd xs)"

section \<open>A concrete replay state\<close>

text \<open>
  A state with one 8x8 two-dimensional float texture of four mip levels under resource
  id 1, used where a statement is evaluated at a concrete input. The GPU of the example
  answers every mesh-pick dispatch with three candidates.
\<close>

definition example_consts :: shared_consts where
  "example_consts =
     \<lparr>RESTYPE_TEX1D = 1, RESTYPE_TEX2D = 2, RESTYPE_TEX3D = 3, RESTYPE_TEXCUBE = 4,
      RESTYPE_TEX1DARRAY = 5, RESTYPE_TEX2DARRAY = 6, RESTYPE_TEXCUBEARRAY = 7,
      RESTYPE_TEXRECT = 8, RESTYPE_TEXBUFFER = 9, RESTYPE_TEX2DMS = 10,
      RESTYPE_TEXTYPEMAX = 10, TEXDISPLAY_UINT_TEX = 16, TEXDISPLAY_SINT_TEX = 32,
      HGRAM_PIXELS_PER_TILE = 64, HGRAM_TILES_PER_BLOCK = 10, HGRAM_NUM_BUCKETS = 4,
      maxMeshPicks = 500, pickSize_bits = 32\<rparr>"

definition example_picks :: pick_buffer where
  "example_picks =
     \<lparr>hdr_numResults = 3,
      as_triangle_results =
        [\<lparr>tri_vertid = 10, intersectionPoint = (5, 0, 0)\<rparr>,
         \<lparr>tri_vertid = 11, intersectionPoint = (1, 0, 0)\<rparr>,
         \<lparr>tri_vertid = 12, intersectionPoint = (3, 0, 0)\<rparr>],
      as_point_results =
        [\<lparr>pt_vertid = 22, pt_idx = 0, pt_len = Finite 1, pt_depth = Finite (1 / 2)\<rparr>,
         \<lparr>pt_vertid = 21, pt_idx = 1, pt_len = Finite 1, pt_depth = Finite (1 / 2)\<rparr>,
         \<lparr>pt_vertid = 20, pt_idx = 2, pt_len = Finite 2, pt_depth = Finite (1 / 4)\<rparr>]\<rparr>"

definition example_gpu :: gpu where
  "example_gpu = \<lparr>compute_bytes = (\<lambda>_ _. []), compute_pick = (\<lambda>_ _. example_picks)\<rparr>"

definition example_externals :: externals where
  "example_externals =
     \<lparr>pick_ray = (\<lambda>_ _ _ _ _. ((0, 0, 0), (0, 0, 1), [])),
      interpret_vertices = (\<lambda>_ _ _ _. []),
      CreateCShaderProgram = (\<lambda>_ _ _. 1)\<rparr>"

definition example_texture :: TextureData where
  "example_texture =
     \<lparr>curType = eGL_TEXTURE_2D, resource_name = 7, td_width = 8, td_height = 8, samples = 1,
      renderbufferReadTex = 0, renderbufferFBOs = (0, 0)\<rparr>"

definition example_description :: TextureDescription where
  "example_description =
     \<lparr>width = 8, height = 8, depth = 1, mips = 4, msSamp = 1, format_compType = Float\<rparr>"

definition example_gl :: GLState where
  "example_gl =
     \<lparr>calls = [], current_context = ReplayCtx, draw_framebuffer = 0, read_framebuffer = 0,
      framebuffer_attachment = (\<lambda>_. RenderbufferObject 0), image = (\<lambda>_. []),
      TEXTURE_MAX_LEVEL = (\<lambda>_. 1000), active_texture = 0,
      texture_binding = (\<lambda>_. (eGL_NONE, 0)), sampler_binding = (\<lambda>_. 0),
      current_program = 0, indexed_binding = (\<lambda>_ _. 0), generic_binding = (\<lambda>_. 0),
      buffer_size = (\<lambda>_. 0), buffer_data = (\<lambda>_. []), uniform_data = UBO_unwritten,
      pick_results = \<lparr>hdr_numResults = 0, as_triangle_results = [], as_point_results = []\<rparr>,
      last_name = 0\<rparr>"

definition example_debugdata :: DebugRenderData where
  "example_debugdata =
     \<lparr>UBOs0 = 1, pointSampler = 2, pointNoMipSampler = 3, minmaxTileResult = 4,
      minmaxResult = 5, histogramBuf = 6, minmaxTileProgram = (\<lambda>_. 1),
      histogramProgram = (\<lambda>_. 1), minmaxResultProgram = (\<lambda>_. 1), MS2Array = 1,
      Array2MS = 1, meshPickProgram = 1, pickResultBuf = 8, pickIBBuf = 0, pickVBBuf = 0,
      pickIBSize = 0, pickVBSize = 0\<rparr>"

definition example_replay :: GLReplay where
  "example_replay =
     \<lparr>HasExt_ARB_compute_shader = True, IsGLES = False,
      m_Textures = [1 \<mapsto> example_texture], GetTexture = (\<lambda>_. example_description),
      GetCurrentResource_name = (\<lambda>_. 9), GetBufferData = (\<lambda>_ _. []),
      DebugData = example_debugdata, gl = example_gl, rdc_log = [], debug_messages = []\<rparr>"

definition example_no_compute :: GLReplay where
  "example_no_compute = example_replay\<lparr>HasExt_ARB_compute_shader := False\<rparr>"



definition example_mesh :: "Topology \<Rightarrow> MeshDisplay" where
  "example_mesh tp =
     \<lparr>position =
        \<lparr>indexResourceId = 0, indexByteOffset = 0, indexByteStride = 0, baseVertex = 0,
         vertexResourceId = 2, vertexByteOffset = 0, vertexByteStride = 16, numIndices = 3,
         topology = tp, mf_unproject = False, nearPlane = 1 / 10, farPlane = 100\<rparr>,
      cam = None, ortho = False, fov = 90, aspect = 1\<rparr>"


text \<open>
  Two GPUs that answer every mesh-pick dispatch with the same two candidates, in
  opposite orders; the distance of the candidate of vertex 5 is a NaN.
\<close>

definition example_nan_picks :: pick_buffer where
  "example_nan_picks =
     \<lparr>hdr_numResults = 2,
      as_triangle_results = [],
      as_point_results =
        [\<lparr>pt_vertid = 5, pt_idx = 0, pt_len = NaN, pt_depth = Finite (1 / 2)\<rparr>,
         \<lparr>pt_vertid = 6, pt_idx = 1, pt_len = Finite 1, pt_depth = Finite (1 / 2)\<rparr>]\<rparr>"

definition example_nan_picks_swapped :: pick_buffer where
  "example_nan_picks_swapped =
     \<lparr>hdr_numResults = 2,
      as_triangle_results = [],
      as_point_results =
        [\<lparr>pt_vertid = 6, pt_idx = 1, pt_len = Finite 1, pt_depth = Finite (1 / 2)\<rparr>,
         \<lparr>pt_vertid = 5, pt_idx = 0, pt_len = NaN, pt_depth = Finite (1 / 2)\<rparr>]\<rparr>"

definition example_nan_gpu :: gpu where
  "example_nan_gpu = \<lparr>compute_bytes = (\<lambda>_ _. []), compute_pick = (\<lambda>_ _. example_nan_picks)\<rparr>"

definition example_nan_gpu_swapped :: gpu where
  "example_nan_gpu_swapped =
     \<lparr>compute_bytes = (\<lambda>_ _. []), compute_pick = (\<lambda>_ _. example_nan_picks_swapped)\<rparr>"





section \<open>Notions used in the statements\<close>


text \<open>The \<open>HistogramMax\<close> member of the uniform block, when it holds histogram data.\<close>

definition uploaded_HistogramMax :: "GLState \<Rightarrow> real option" where
  "uploaded_HistogramMax g =
     (case uniform_data g of UBO_Histogram d \<Rightarrow> Some (HistogramMax d) | _ \<Rightarrow> None)"

text \<open>
  The triple (distance, depth, vertex id) by which point and line candidates are
  ordered, for candidates whose distance and depth are not NaN; triples are compared
  lexicographically, and so are the two components of the rank of a float.
\<close>

definition no_NaN :: "PointPickResult \<Rightarrow> bool" where
  "no_NaN r \<longleftrightarrow> pt_len r \<noteq> NaN \<and> pt_depth r \<noteq> NaN"

definition pick_key :: "PointPickResult \<Rightarrow> (int \<times> real) \<times> (int \<times> real) \<times> u32" where
  "pick_key r = (float_rank (pt_len r), float_rank (pt_depth r), pt_vertid r)"







section \<open>Invalid requests\<close>

text \<open>
  C5. \<open>GetHistogram\<close> returns failure whenever \<open>minval >= maxval\<close> or the resource id is
  null or not in the texture map, and \<open>GetMinMax\<close> returns failure whenever the resource
  id is null or not in the texture map. In each such call the result state is the state
  before the call, so no GL entry point was invoked and nothing on the GPU changed; the
  output arguments are left as they were.
\<close>

theorem invalid_request_returns_unchanged:
  "(minval \<ge> maxval \<or> texid = 0 \<or> m_Textures s texid = None \<longrightarrow>
      GetHistogram K G s texid sliceFace mip sample typeHint minval maxval channels histogram
        = (False, histogram, s))
   \<and> (texid = 0 \<or> m_Textures s texid = None \<longrightarrow>
      GetMinMax K G s texid sliceFace mip sample typeHint out = (False, out, s))"
  by (simp add: GetHistogram_def GetMinMax_def)

theorem invalid_request_witness:
  "((1::real) \<ge> 0 \<or> (5::ResourceId) = 0 \<or> m_Textures example_replay 5 = None) \<and>
   GetHistogram example_consts example_gpu example_replay 5 0 0 0 Float 1 0
       (True, True, True, True) [] = (False, [], example_replay) \<and>
   GetMinMax example_consts example_gpu example_replay 5 0 0 0 Float ([], [])
     = (False, ([], []), example_replay)"
  using invalid_request_returns_unchanged [of 0 1 5 example_replay example_consts example_gpu
      0 0 0 Float "(True, True, True, True)" "[]" "([], [])"]
  by (simp add: example_replay_def)

section \<open>The effect of each GL entry point on each part of the state\<close>

lemma issue_fields [simp]:
  "calls (issue c g) = calls g @ [c]"
  "current_context (issue c g) = current_context g"
  "draw_framebuffer (issue c g) = draw_framebuffer g"
  "read_framebuffer (issue c g) = read_framebuffer g"
  "framebuffer_attachment (issue c g) = framebuffer_attachment g"
  "image (issue c g) = image g"
  "TEXTURE_MAX_LEVEL (issue c g) = TEXTURE_MAX_LEVEL g"
  "active_texture (issue c g) = active_texture g"
  "texture_binding (issue c g) = texture_binding g"
  "sampler_binding (issue c g) = sampler_binding g"
  "current_program (issue c g) = current_program g"
  "indexed_binding (issue c g) = indexed_binding g"
  "generic_binding (issue c g) = generic_binding g"
  "buffer_size (issue c g) = buffer_size g"
  "buffer_data (issue c g) = buffer_data g"
  "uniform_data (issue c g) = uniform_data g"
  "pick_results (issue c g) = pick_results g"
  "last_name (issue c g) = last_name g"
  by (simp_all add: issue_def)

lemma MakeCurrentReplayContext_fields [simp]:
  "calls (MakeCurrentReplayContext c g) = calls g @ [MakeCurrent c]"
  "current_context (MakeCurrentReplayContext c g) = c"
  "draw_framebuffer (MakeCurrentReplayContext c g) = draw_framebuffer g"
  "read_framebuffer (MakeCurrentReplayContext c g) = read_framebuffer g"
  "framebuffer_attachment (MakeCurrentReplayContext c g) = framebuffer_attachment g"
  "image (MakeCurrentReplayContext c g) = image g"
  "TEXTURE_MAX_LEVEL (MakeCurrentReplayContext c g) = TEXTURE_MAX_LEVEL g"
  "active_texture (MakeCurrentReplayContext c g) = active_texture g"
  "texture_binding (MakeCurrentReplayContext c g) = texture_binding g"
  "sampler_binding (MakeCurrentReplayContext c g) = sampler_binding g"
  "current_program (MakeCurrentReplayContext c g) = current_program g"
  "indexed_binding (MakeCurrentReplayContext c g) = indexed_binding g"
  "generic_binding (MakeCurrentReplayContext c g) = generic_binding g"
  "buffer_size (MakeCurrentReplayContext c g) = buffer_size g"
  "buffer_data (MakeCurrentReplayContext c g) = buffer_data g"
  "uniform_data (MakeCurrentReplayContext c g) = uniform_data g"
  "pick_results (MakeCurrentReplayContext c g) = pick_results g"
  "last_name (MakeCurrentReplayContext c g) = last_name g"
  by (simp_all add: MakeCurrentReplayContext_def issue_def Let_def)

lemma glGetIntegerv_fields [simp]:
  "fst (glGetIntegerv t g) = (case t of eGL_DRAW_FRAMEBUFFER \<Rightarrow> draw_framebuffer g | eGL_READ_FRAMEBUFFER \<Rightarrow> read_framebuffer g)"
  "calls (snd (glGetIntegerv t g)) = calls g @ [GetIntegerv t]"
  "current_context (snd (glGetIntegerv t g)) = current_context g"
  "draw_framebuffer (snd (glGetIntegerv t g)) = draw_framebuffer g"
  "read_framebuffer (snd (glGetIntegerv t g)) = read_framebuffer g"
  "framebuffer_attachment (snd (glGetIntegerv t g)) = framebuffer_attachment g"
  "image (snd (glGetIntegerv t g)) = image g"
  "TEXTURE_MAX_LEVEL (snd (glGetIntegerv t g)) = TEXTURE_MAX_LEVEL g"
  "active_texture (snd (glGetIntegerv t g)) = active_texture g"
  "texture_binding (snd (glGetIntegerv t g)) = texture_binding g"
  "sampler_binding (snd (glGetIntegerv t g)) = sampler_binding g"
  "current_program (snd (glGetIntegerv t g)) = current_program g"
  "indexed_binding (snd (glGetIntegerv t g)) = indexed_binding g"
  "generic_binding (snd (glGetIntegerv t g)) = generic_binding g"
  "buffer_size (snd (glGetIntegerv t g)) = buffer_size g"
  "buffer_data (snd (glGetIntegerv t g)) = buffer_data g"
  "uniform_data (snd (glGetIntegerv t g)) = uniform_data g"
  "pick_results (snd (glGetIntegerv t g)) = pick_results g"
  "last_name (snd (glGetIntegerv t g)) = last_name g"
  by (simp_all add: glGetIntegerv_def issue_def Let_def split: framebuffer_target.splits)

lemma glBindFramebuffer_fields [simp]:
  "calls (glBindFramebuffer t fbo g) = calls g @ [BindFramebuffer t fbo]"
  "current_context (glBindFramebuffer t fbo g) = current_context g"
  "draw_framebuffer (glBindFramebuffer t fbo g) = (if t = eGL_DRAW_FRAMEBUFFER then fbo else draw_framebuffer g)"
  "read_framebuffer (glBindFramebuffer t fbo g) = (if t = eGL_READ_FRAMEBUFFER then fbo else read_framebuffer g)"
  "framebuffer_attachment (glBindFramebuffer t fbo g) = framebuffer_attachment g"
  "image (glBindFramebuffer t fbo g) = image g"
  "TEXTURE_MAX_LEVEL (glBindFramebuffer t fbo g) = TEXTURE_MAX_LEVEL g"
  "active_texture (glBindFramebuffer t fbo g) = active_texture g"
  "texture_binding (glBindFramebuffer t fbo g) = texture_binding g"
  "sampler_binding (glBindFramebuffer t fbo g) = sampler_binding g"
  "current_program (glBindFramebuffer t fbo g) = current_program g"
  "indexed_binding (glBindFramebuffer t fbo g) = indexed_binding g"
  "generic_binding (glBindFramebuffer t fbo g) = generic_binding g"
  "buffer_size (glBindFramebuffer t fbo g) = buffer_size g"
  "buffer_data (glBindFramebuffer t fbo g) = buffer_data g"
  "uniform_data (glBindFramebuffer t fbo g) = uniform_data g"
  "pick_results (glBindFramebuffer t fbo g) = pick_results g"
  "last_name (glBindFramebuffer t fbo g) = last_name g"
  by (simp_all add: glBindFramebuffer_def issue_def Let_def split: framebuffer_target.splits)

lemma glBlitFramebuffer_fields [simp]:
  "calls (glBlitFramebuffer w h g) = calls g @ [BlitFramebuffer w h]"
  "current_context (glBlitFramebuffer w h g) = current_context g"
  "draw_framebuffer (glBlitFramebuffer w h g) = draw_framebuffer g"
  "read_framebuffer (glBlitFramebuffer w h g) = read_framebuffer g"
  "framebuffer_attachment (glBlitFramebuffer w h g) = framebuffer_attachment g"
  "image (glBlitFramebuffer w h g) = (image g)(framebuffer_attachment g (draw_framebuffer g) := image g (framebuffer_attachment g (read_framebuffer g)))"
  "TEXTURE_MAX_LEVEL (glBlitFramebuffer w h g) = TEXTURE_MAX_LEVEL g"
  "active_texture (glBlitFramebuffer w h g) = active_texture g"
  "texture_binding (glBlitFramebuffer w h g) = texture_binding g"
  "sampler_binding (glBlitFramebuffer w h g) = sampler_binding g"
  "current_program (glBlitFramebuffer w h g) = current_program g"
  "indexed_binding (glBlitFramebuffer w h g) = indexed_binding g"
  "generic_binding (glBlitFramebuffer w h g) = generic_binding g"
  "buffer_size (glBlitFramebuffer w h g) = buffer_size g"
  "buffer_data (glBlitFramebuffer w h g) = buffer_data g"
  "uniform_data (glBlitFramebuffer w h g) = uniform_data g"
  "pick_results (glBlitFramebuffer w h g) = pick_results g"
  "last_name (glBlitFramebuffer w h g) = last_name g"
  by (simp_all add: glBlitFramebuffer_def issue_def Let_def)

lemma glBindBufferBase_fields [simp]:
  "calls (glBindBufferBase t i b g) = calls g @ [BindBufferBase t i b]"
  "current_context (glBindBufferBase t i b g) = current_context g"
  "draw_framebuffer (glBindBufferBase t i b g) = draw_framebuffer g"
  "read_framebuffer (glBindBufferBase t i b g) = read_framebuffer g"
  "framebuffer_attachment (glBindBufferBase t i b g) = framebuffer_attachment g"
  "image (glBindBufferBase t i b g) = image g"
  "TEXTURE_MAX_LEVEL (glBindBufferBase t i b g) = TEXTURE_MAX_LEVEL g"
  "active_texture (glBindBufferBase t i b g) = active_texture g"
  "texture_binding (glBindBufferBase t i b g) = texture_binding g"
  "sampler_binding (glBindBufferBase t i b g) = sampler_binding g"
  "current_program (glBindBufferBase t i b g) = current_program g"
  "indexed_binding (glBindBufferBase t i b g) = (indexed_binding g)(t := (indexed_binding g t)(i := b))"
  "generic_binding (glBindBufferBase t i b g) = (generic_binding g)(t := b)"
  "buffer_size (glBindBufferBase t i b g) = buffer_size g"
  "buffer_data (glBindBufferBase t i b g) = buffer_data g"
  "uniform_data (glBindBufferBase t i b g) = uniform_data g"
  "pick_results (glBindBufferBase t i b g) = pick_results g"
  "last_name (glBindBufferBase t i b g) = last_name g"
  by (simp_all add: glBindBufferBase_def issue_def Let_def)

lemma glBindBufferRange_fields [simp]:
  "calls (glBindBufferRange t i b off sz g) = calls g @ [BindBufferRange t i b off sz]"
  "current_context (glBindBufferRange t i b off sz g) = current_context g"
  "draw_framebuffer (glBindBufferRange t i b off sz g) = draw_framebuffer g"
  "read_framebuffer (glBindBufferRange t i b off sz g) = read_framebuffer g"
  "framebuffer_attachment (glBindBufferRange t i b off sz g) = framebuffer_attachment g"
  "image (glBindBufferRange t i b off sz g) = image g"
  "TEXTURE_MAX_LEVEL (glBindBufferRange t i b off sz g) = TEXTURE_MAX_LEVEL g"
  "active_texture (glBindBufferRange t i b off sz g) = active_texture g"
  "texture_binding (glBindBufferRange t i b off sz g) = texture_binding g"
  "sampler_binding (glBindBufferRange t i b off sz g) = sampler_binding g"
  "current_program (glBindBufferRange t i b off sz g) = current_program g"
  "indexed_binding (glBindBufferRange t i b off sz g) = (indexed_binding g)(t := (indexed_binding g t)(i := b))"
  "generic_binding (glBindBufferRange t i b off sz g) = (generic_binding g)(t := b)"
  "buffer_size (glBindBufferRange t i b off sz g) = buffer_size g"
  "buffer_data (glBindBufferRange t i b off sz g) = buffer_data g"
  "uniform_data (glBindBufferRange t i b off sz g) = uniform_data g"
  "pick_results (glBindBufferRange t i b off sz g) = pick_results g"
  "last_name (glBindBufferRange t i b off sz g) = last_name g"
  by (simp_all add: glBindBufferRange_def issue_def Let_def)

lemma glBindBuffer_fields [simp]:
  "calls (glBindBuffer t b g) = calls g @ [BindBuffer t b]"
  "current_context (glBindBuffer t b g) = current_context g"
  "draw_framebuffer (glBindBuffer t b g) = draw_framebuffer g"
  "read_framebuffer (glBindBuffer t b g) = read_framebuffer g"
  "framebuffer_attachment (glBindBuffer t b g) = framebuffer_attachment g"
  "image (glBindBuffer t b g) = image g"
  "TEXTURE_MAX_LEVEL (glBindBuffer t b g) = TEXTURE_MAX_LEVEL g"
  "active_texture (glBindBuffer t b g) = active_texture g"
  "texture_binding (glBindBuffer t b g) = texture_binding g"
  "sampler_binding (glBindBuffer t b g) = sampler_binding g"
  "current_program (glBindBuffer t b g) = current_program g"
  "indexed_binding (glBindBuffer t b g) = indexed_binding g"
  "generic_binding (glBindBuffer t b g) = (generic_binding g)(t := b)"
  "buffer_size (glBindBuffer t b g) = buffer_size g"
  "buffer_data (glBindBuffer t b g) = buffer_data g"
  "uniform_data (glBindBuffer t b g) = uniform_data g"
  "pick_results (glBindBuffer t b g) = pick_results g"
  "last_name (glBindBuffer t b g) = last_name g"
  by (simp_all add: glBindBuffer_def issue_def Let_def)

lemma glMapBufferRange_fields [simp]:
  "calls (glMapBufferRange t g) = calls g @ [MapBufferRange t]"
  "current_context (glMapBufferRange t g) = current_context g"
  "draw_framebuffer (glMapBufferRange t g) = draw_framebuffer g"
  "read_framebuffer (glMapBufferRange t g) = read_framebuffer g"
  "framebuffer_attachment (glMapBufferRange t g) = framebuffer_attachment g"
  "image (glMapBufferRange t g) = image g"
  "TEXTURE_MAX_LEVEL (glMapBufferRange t g) = TEXTURE_MAX_LEVEL g"
  "active_texture (glMapBufferRange t g) = active_texture g"
  "texture_binding (glMapBufferRange t g) = texture_binding g"
  "sampler_binding (glMapBufferRange t g) = sampler_binding g"
  "current_program (glMapBufferRange t g) = current_program g"
  "indexed_binding (glMapBufferRange t g) = indexed_binding g"
  "generic_binding (glMapBufferRange t g) = generic_binding g"
  "buffer_size (glMapBufferRange t g) = buffer_size g"
  "buffer_data (glMapBufferRange t g) = buffer_data g"
  "uniform_data (glMapBufferRange t g) = uniform_data g"
  "pick_results (glMapBufferRange t g) = pick_results g"
  "last_name (glMapBufferRange t g) = last_name g"
  by (simp_all add: glMapBufferRange_def issue_def Let_def)

lemma glUnmapBuffer_fields [simp]:
  "calls (glUnmapBuffer t cdata g) = calls g @ [UnmapBuffer t]"
  "current_context (glUnmapBuffer t cdata g) = current_context g"
  "draw_framebuffer (glUnmapBuffer t cdata g) = draw_framebuffer g"
  "read_framebuffer (glUnmapBuffer t cdata g) = read_framebuffer g"
  "framebuffer_attachment (glUnmapBuffer t cdata g) = framebuffer_attachment g"
  "image (glUnmapBuffer t cdata g) = image g"
  "TEXTURE_MAX_LEVEL (glUnmapBuffer t cdata g) = TEXTURE_MAX_LEVEL g"
  "active_texture (glUnmapBuffer t cdata g) = active_texture g"
  "texture_binding (glUnmapBuffer t cdata g) = texture_binding g"
  "sampler_binding (glUnmapBuffer t cdata g) = sampler_binding g"
  "current_program (glUnmapBuffer t cdata g) = current_program g"
  "indexed_binding (glUnmapBuffer t cdata g) = indexed_binding g"
  "generic_binding (glUnmapBuffer t cdata g) = generic_binding g"
  "buffer_size (glUnmapBuffer t cdata g) = buffer_size g"
  "buffer_data (glUnmapBuffer t cdata g) = buffer_data g"
  "uniform_data (glUnmapBuffer t cdata g) = cdata"
  "pick_results (glUnmapBuffer t cdata g) = pick_results g"
  "last_name (glUnmapBuffer t cdata g) = last_name g"
  by (simp_all add: glUnmapBuffer_def issue_def Let_def)

lemma glActiveTexture_fields [simp]:
  "calls (glActiveTexture unit g) = calls g @ [ActiveTexture unit]"
  "current_context (glActiveTexture unit g) = current_context g"
  "draw_framebuffer (glActiveTexture unit g) = draw_framebuffer g"
  "read_framebuffer (glActiveTexture unit g) = read_framebuffer g"
  "framebuffer_attachment (glActiveTexture unit g) = framebuffer_attachment g"
  "image (glActiveTexture unit g) = image g"
  "TEXTURE_MAX_LEVEL (glActiveTexture unit g) = TEXTURE_MAX_LEVEL g"
  "active_texture (glActiveTexture unit g) = unit"
  "texture_binding (glActiveTexture unit g) = texture_binding g"
  "sampler_binding (glActiveTexture unit g) = sampler_binding g"
  "current_program (glActiveTexture unit g) = current_program g"
  "indexed_binding (glActiveTexture unit g) = indexed_binding g"
  "generic_binding (glActiveTexture unit g) = generic_binding g"
  "buffer_size (glActiveTexture unit g) = buffer_size g"
  "buffer_data (glActiveTexture unit g) = buffer_data g"
  "uniform_data (glActiveTexture unit g) = uniform_data g"
  "pick_results (glActiveTexture unit g) = pick_results g"
  "last_name (glActiveTexture unit g) = last_name g"
  by (simp_all add: glActiveTexture_def issue_def Let_def)

lemma glBindTexture_fields [simp]:
  "calls (glBindTexture target texname g) = calls g @ [BindTexture target texname]"
  "current_context (glBindTexture target texname g) = current_context g"
  "draw_framebuffer (glBindTexture target texname g) = draw_framebuffer g"
  "read_framebuffer (glBindTexture target texname g) = read_framebuffer g"
  "framebuffer_attachment (glBindTexture target texname g) = framebuffer_attachment g"
  "image (glBindTexture target texname g) = image g"
  "TEXTURE_MAX_LEVEL (glBindTexture target texname g) = TEXTURE_MAX_LEVEL g"
  "active_texture (glBindTexture target texname g) = active_texture g"
  "texture_binding (glBindTexture target texname g) = (texture_binding g)(active_texture g := (target, texname))"
  "sampler_binding (glBindTexture target texname g) = sampler_binding g"
  "current_program (glBindTexture target texname g) = current_program g"
  "indexed_binding (glBindTexture target texname g) = indexed_binding g"
  "generic_binding (glBindTexture target texname g) = generic_binding g"
  "buffer_size (glBindTexture target texname g) = buffer_size g"
  "buffer_data (glBindTexture target texname g) = buffer_data g"
  "uniform_data (glBindTexture target texname g) = uniform_data g"
  "pick_results (glBindTexture target texname g) = pick_results g"
  "last_name (glBindTexture target texname g) = last_name g"
  by (simp_all add: glBindTexture_def issue_def Let_def)

lemma glBindSampler_fields [simp]:
  "calls (glBindSampler unit sampler g) = calls g @ [BindSampler unit sampler]"
  "current_context (glBindSampler unit sampler g) = current_context g"
  "draw_framebuffer (glBindSampler unit sampler g) = draw_framebuffer g"
  "read_framebuffer (glBindSampler unit sampler g) = read_framebuffer g"
  "framebuffer_attachment (glBindSampler unit sampler g) = framebuffer_attachment g"
  "image (glBindSampler unit sampler g) = image g"
  "TEXTURE_MAX_LEVEL (glBindSampler unit sampler g) = TEXTURE_MAX_LEVEL g"
  "active_texture (glBindSampler unit sampler g) = active_texture g"
  "texture_binding (glBindSampler unit sampler g) = texture_binding g"
  "sampler_binding (glBindSampler unit sampler g) = (sampler_binding g)(unit := sampler)"
  "current_program (glBindSampler unit sampler g) = current_program g"
  "indexed_binding (glBindSampler unit sampler g) = indexed_binding g"
  "generic_binding (glBindSampler unit sampler g) = generic_binding g"
  "buffer_size (glBindSampler unit sampler g) = buffer_size g"
  "buffer_data (glBindSampler unit sampler g) = buffer_data g"
  "uniform_data (glBindSampler unit sampler g) = uniform_data g"
  "pick_results (glBindSampler unit sampler g) = pick_results g"
  "last_name (glBindSampler unit sampler g) = last_name g"
  by (simp_all add: glBindSampler_def issue_def Let_def)

lemma glGetTextureParameterivEXT_fields [simp]:
  "fst (glGetTextureParameterivEXT texname target g) = TEXTURE_MAX_LEVEL g texname"
  "calls (snd (glGetTextureParameterivEXT texname target g)) = calls g @ [GetTextureParameteriv_MAX_LEVEL texname target]"
  "current_context (snd (glGetTextureParameterivEXT texname target g)) = current_context g"
  "draw_framebuffer (snd (glGetTextureParameterivEXT texname target g)) = draw_framebuffer g"
  "read_framebuffer (snd (glGetTextureParameterivEXT texname target g)) = read_framebuffer g"
  "framebuffer_attachment (snd (glGetTextureParameterivEXT texname target g)) = framebuffer_attachment g"
  "image (snd (glGetTextureParameterivEXT texname target g)) = image g"
  "TEXTURE_MAX_LEVEL (snd (glGetTextureParameterivEXT texname target g)) = TEXTURE_MAX_LEVEL g"
  "active_texture (snd (glGetTextureParameterivEXT texname target g)) = active_texture g"
  "texture_binding (snd (glGetTextureParameterivEXT texname target g)) = texture_binding g"
  "sampler_binding (snd (glGetTextureParameterivEXT texname target g)) = sampler_binding g"
  "current_program (snd (glGetTextureParameterivEXT texname target g)) = current_program g"
  "indexed_binding (snd (glGetTextureParameterivEXT texname target g)) = indexed_binding g"
  "generic_binding (snd (glGetTextureParameterivEXT texname target g)) = generic_binding g"
  "buffer_size (snd (glGetTextureParameterivEXT texname target g)) = buffer_size g"
  "buffer_data (snd (glGetTextureParameterivEXT texname target g)) = buffer_data g"
  "uniform_data (snd (glGetTextureParameterivEXT texname target g)) = uniform_data g"
  "pick_results (snd (glGetTextureParameterivEXT texname target g)) = pick_results g"
  "last_name (snd (glGetTextureParameterivEXT texname target g)) = last_name g"
  by (simp_all add: glGetTextureParameterivEXT_def issue_def Let_def)

lemma glTextureParameterivEXT_fields [simp]:
  "calls (glTextureParameterivEXT texname target v g) = calls g @ [TextureParameteriv_MAX_LEVEL texname target v]"
  "current_context (glTextureParameterivEXT texname target v g) = current_context g"
  "draw_framebuffer (glTextureParameterivEXT texname target v g) = draw_framebuffer g"
  "read_framebuffer (glTextureParameterivEXT texname target v g) = read_framebuffer g"
  "framebuffer_attachment (glTextureParameterivEXT texname target v g) = framebuffer_attachment g"
  "image (glTextureParameterivEXT texname target v g) = image g"
  "TEXTURE_MAX_LEVEL (glTextureParameterivEXT texname target v g) = (TEXTURE_MAX_LEVEL g)(texname := v)"
  "active_texture (glTextureParameterivEXT texname target v g) = active_texture g"
  "texture_binding (glTextureParameterivEXT texname target v g) = texture_binding g"
  "sampler_binding (glTextureParameterivEXT texname target v g) = sampler_binding g"
  "current_program (glTextureParameterivEXT texname target v g) = current_program g"
  "indexed_binding (glTextureParameterivEXT texname target v g) = indexed_binding g"
  "generic_binding (glTextureParameterivEXT texname target v g) = generic_binding g"
  "buffer_size (glTextureParameterivEXT texname target v g) = buffer_size g"
  "buffer_data (glTextureParameterivEXT texname target v g) = buffer_data g"
  "uniform_data (glTextureParameterivEXT texname target v g) = uniform_data g"
  "pick_results (glTextureParameterivEXT texname target v g) = pick_results g"
  "last_name (glTextureParameterivEXT texname target v g) = last_name g"
  by (simp_all add: glTextureParameterivEXT_def issue_def Let_def)

lemma glClearBufferData_fields [simp]:
  "calls (glClearBufferData t g) = calls g @ [ClearBufferData t]"
  "current_context (glClearBufferData t g) = current_context g"
  "draw_framebuffer (glClearBufferData t g) = draw_framebuffer g"
  "read_framebuffer (glClearBufferData t g) = read_framebuffer g"
  "framebuffer_attachment (glClearBufferData t g) = framebuffer_attachment g"
  "image (glClearBufferData t g) = image g"
  "TEXTURE_MAX_LEVEL (glClearBufferData t g) = TEXTURE_MAX_LEVEL g"
  "active_texture (glClearBufferData t g) = active_texture g"
  "texture_binding (glClearBufferData t g) = texture_binding g"
  "sampler_binding (glClearBufferData t g) = sampler_binding g"
  "current_program (glClearBufferData t g) = current_program g"
  "indexed_binding (glClearBufferData t g) = indexed_binding g"
  "generic_binding (glClearBufferData t g) = generic_binding g"
  "buffer_size (glClearBufferData t g) = buffer_size g"
  "buffer_data (glClearBufferData t g) = (buffer_data g)(generic_binding g t := replicate (buffer_size g (generic_binding g t)) 0)"
  "uniform_data (glClearBufferData t g) = uniform_data g"
  "pick_results (glClearBufferData t g) = pick_results g"
  "last_name (glClearBufferData t g) = last_name g"
  by (simp_all add: glClearBufferData_def issue_def Let_def)

lemma glUseProgram_fields [simp]:
  "calls (glUseProgram p g) = calls g @ [UseProgram p]"
  "current_context (glUseProgram p g) = current_context g"
  "draw_framebuffer (glUseProgram p g) = draw_framebuffer g"
  "read_framebuffer (glUseProgram p g) = read_framebuffer g"
  "framebuffer_attachment (glUseProgram p g) = framebuffer_attachment g"
  "image (glUseProgram p g) = image g"
  "TEXTURE_MAX_LEVEL (glUseProgram p g) = TEXTURE_MAX_LEVEL g"
  "active_texture (glUseProgram p g) = active_texture g"
  "texture_binding (glUseProgram p g) = texture_binding g"
  "sampler_binding (glUseProgram p g) = sampler_binding g"
  "current_program (glUseProgram p g) = p"
  "indexed_binding (glUseProgram p g) = indexed_binding g"
  "generic_binding (glUseProgram p g) = generic_binding g"
  "buffer_size (glUseProgram p g) = buffer_size g"
  "buffer_data (glUseProgram p g) = buffer_data g"
  "uniform_data (glUseProgram p g) = uniform_data g"
  "pick_results (glUseProgram p g) = pick_results g"
  "last_name (glUseProgram p g) = last_name g"
  by (simp_all add: glUseProgram_def issue_def Let_def)

lemma glDispatchCompute_fields [simp]:
  "calls (glDispatchCompute G x y z g) = calls g @ [DispatchCompute x y z]"
  "current_context (glDispatchCompute G x y z g) = current_context g"
  "draw_framebuffer (glDispatchCompute G x y z g) = draw_framebuffer g"
  "read_framebuffer (glDispatchCompute G x y z g) = read_framebuffer g"
  "framebuffer_attachment (glDispatchCompute G x y z g) = framebuffer_attachment g"
  "image (glDispatchCompute G x y z g) = image g"
  "TEXTURE_MAX_LEVEL (glDispatchCompute G x y z g) = TEXTURE_MAX_LEVEL g"
  "active_texture (glDispatchCompute G x y z g) = active_texture g"
  "texture_binding (glDispatchCompute G x y z g) = texture_binding g"
  "sampler_binding (glDispatchCompute G x y z g) = sampler_binding g"
  "current_program (glDispatchCompute G x y z g) = current_program g"
  "indexed_binding (glDispatchCompute G x y z g) = indexed_binding g"
  "generic_binding (glDispatchCompute G x y z g) = generic_binding g"
  "buffer_size (glDispatchCompute G x y z g) = buffer_size g"
  "buffer_data (glDispatchCompute G x y z g) = (buffer_data g)(indexed_binding g eGL_SHADER_STORAGE_BUFFER 0 := fit (buffer_size g (indexed_binding g eGL_SHADER_STORAGE_BUFFER 0)) (compute_bytes G (x, y, z) (observable g)))"
  "uniform_data (glDispatchCompute G x y z g) = uniform_data g"
  "pick_results (glDispatchCompute G x y z g) = pick_results g"
  "last_name (glDispatchCompute G x y z g) = last_name g"
  by (simp_all add: glDispatchCompute_def issue_def Let_def)

lemma glDispatchCompute_meshPick_fields [simp]:
  "calls (glDispatchCompute_meshPick G x y z g) = calls g @ [DispatchCompute x y z]"
  "current_context (glDispatchCompute_meshPick G x y z g) = current_context g"
  "draw_framebuffer (glDispatchCompute_meshPick G x y z g) = draw_framebuffer g"
  "read_framebuffer (glDispatchCompute_meshPick G x y z g) = read_framebuffer g"
  "framebuffer_attachment (glDispatchCompute_meshPick G x y z g) = framebuffer_attachment g"
  "image (glDispatchCompute_meshPick G x y z g) = image g"
  "TEXTURE_MAX_LEVEL (glDispatchCompute_meshPick G x y z g) = TEXTURE_MAX_LEVEL g"
  "active_texture (glDispatchCompute_meshPick G x y z g) = active_texture g"
  "texture_binding (glDispatchCompute_meshPick G x y z g) = texture_binding g"
  "sampler_binding (glDispatchCompute_meshPick G x y z g) = sampler_binding g"
  "current_program (glDispatchCompute_meshPick G x y z g) = current_program g"
  "indexed_binding (glDispatchCompute_meshPick G x y z g) = indexed_binding g"
  "generic_binding (glDispatchCompute_meshPick G x y z g) = generic_binding g"
  "buffer_size (glDispatchCompute_meshPick G x y z g) = buffer_size g"
  "buffer_data (glDispatchCompute_meshPick G x y z g) = buffer_data g"
  "uniform_data (glDispatchCompute_meshPick G x y z g) = uniform_data g"
  "pick_results (glDispatchCompute_meshPick G x y z g) = compute_pick G (x, y, z) (observable g)"
  "last_name (glDispatchCompute_meshPick G x y z g) = last_name g"
  by (simp_all add: glDispatchCompute_meshPick_def issue_def Let_def)

lemma glMemoryBarrier_fields [simp]:
  "calls (glMemoryBarrier g) = calls g @ [MemoryBarrier]"
  "current_context (glMemoryBarrier g) = current_context g"
  "draw_framebuffer (glMemoryBarrier g) = draw_framebuffer g"
  "read_framebuffer (glMemoryBarrier g) = read_framebuffer g"
  "framebuffer_attachment (glMemoryBarrier g) = framebuffer_attachment g"
  "image (glMemoryBarrier g) = image g"
  "TEXTURE_MAX_LEVEL (glMemoryBarrier g) = TEXTURE_MAX_LEVEL g"
  "active_texture (glMemoryBarrier g) = active_texture g"
  "texture_binding (glMemoryBarrier g) = texture_binding g"
  "sampler_binding (glMemoryBarrier g) = sampler_binding g"
  "current_program (glMemoryBarrier g) = current_program g"
  "indexed_binding (glMemoryBarrier g) = indexed_binding g"
  "generic_binding (glMemoryBarrier g) = generic_binding g"
  "buffer_size (glMemoryBarrier g) = buffer_size g"
  "buffer_data (glMemoryBarrier g) = buffer_data g"
  "uniform_data (glMemoryBarrier g) = uniform_data g"
  "pick_results (glMemoryBarrier g) = pick_results g"
  "last_name (glMemoryBarrier g) = last_name g"
  by (simp_all add: glMemoryBarrier_def issue_def Let_def)

lemma glGetBufferParameteriv_fields [simp]:
  "fst (glGetBufferParameteriv t g) = word_of_nat (buffer_size g (generic_binding g t))"
  "calls (snd (glGetBufferParameteriv t g)) = calls g @ [GetBufferParameteriv_SIZE t]"
  "current_context (snd (glGetBufferParameteriv t g)) = current_context g"
  "draw_framebuffer (snd (glGetBufferParameteriv t g)) = draw_framebuffer g"
  "read_framebuffer (snd (glGetBufferParameteriv t g)) = read_framebuffer g"
  "framebuffer_attachment (snd (glGetBufferParameteriv t g)) = framebuffer_attachment g"
  "image (snd (glGetBufferParameteriv t g)) = image g"
  "TEXTURE_MAX_LEVEL (snd (glGetBufferParameteriv t g)) = TEXTURE_MAX_LEVEL g"
  "active_texture (snd (glGetBufferParameteriv t g)) = active_texture g"
  "texture_binding (snd (glGetBufferParameteriv t g)) = texture_binding g"
  "sampler_binding (snd (glGetBufferParameteriv t g)) = sampler_binding g"
  "current_program (snd (glGetBufferParameteriv t g)) = current_program g"
  "indexed_binding (snd (glGetBufferParameteriv t g)) = indexed_binding g"
  "generic_binding (snd (glGetBufferParameteriv t g)) = generic_binding g"
  "buffer_size (snd (glGetBufferParameteriv t g)) = buffer_size g"
  "buffer_data (snd (glGetBufferParameteriv t g)) = buffer_data g"
  "uniform_data (snd (glGetBufferParameteriv t g)) = uniform_data g"
  "pick_results (snd (glGetBufferParameteriv t g)) = pick_results g"
  "last_name (snd (glGetBufferParameteriv t g)) = last_name g"
  by (simp_all add: glGetBufferParameteriv_def issue_def Let_def)

lemma glGetBufferSubData_fields [simp]:
  "fst (glGetBufferSubData t off sz dst g) = (if off + sz \<le> buffer_size g (generic_binding g t) then take sz (drop off (fit (buffer_size g (generic_binding g t)) (buffer_data g (generic_binding g t)))) @ drop sz dst else dst)"
  "calls (snd (glGetBufferSubData t off sz dst g)) = calls g @ [GetBufferSubData t off sz]"
  "current_context (snd (glGetBufferSubData t off sz dst g)) = current_context g"
  "draw_framebuffer (snd (glGetBufferSubData t off sz dst g)) = draw_framebuffer g"
  "read_framebuffer (snd (glGetBufferSubData t off sz dst g)) = read_framebuffer g"
  "framebuffer_attachment (snd (glGetBufferSubData t off sz dst g)) = framebuffer_attachment g"
  "image (snd (glGetBufferSubData t off sz dst g)) = image g"
  "TEXTURE_MAX_LEVEL (snd (glGetBufferSubData t off sz dst g)) = TEXTURE_MAX_LEVEL g"
  "active_texture (snd (glGetBufferSubData t off sz dst g)) = active_texture g"
  "texture_binding (snd (glGetBufferSubData t off sz dst g)) = texture_binding g"
  "sampler_binding (snd (glGetBufferSubData t off sz dst g)) = sampler_binding g"
  "current_program (snd (glGetBufferSubData t off sz dst g)) = current_program g"
  "indexed_binding (snd (glGetBufferSubData t off sz dst g)) = indexed_binding g"
  "generic_binding (snd (glGetBufferSubData t off sz dst g)) = generic_binding g"
  "buffer_size (snd (glGetBufferSubData t off sz dst g)) = buffer_size g"
  "buffer_data (snd (glGetBufferSubData t off sz dst g)) = buffer_data g"
  "uniform_data (snd (glGetBufferSubData t off sz dst g)) = uniform_data g"
  "pick_results (snd (glGetBufferSubData t off sz dst g)) = pick_results g"
  "last_name (snd (glGetBufferSubData t off sz dst g)) = last_name g"
  by (simp_all add: glGetBufferSubData_def issue_def Let_def)

lemma glBufferSubData_fields [simp]:
  "calls (glBufferSubData t off sz src g) = calls g @ [BufferSubData t off sz]"
  "current_context (glBufferSubData t off sz src g) = current_context g"
  "draw_framebuffer (glBufferSubData t off sz src g) = draw_framebuffer g"
  "read_framebuffer (glBufferSubData t off sz src g) = read_framebuffer g"
  "framebuffer_attachment (glBufferSubData t off sz src g) = framebuffer_attachment g"
  "image (glBufferSubData t off sz src g) = image g"
  "TEXTURE_MAX_LEVEL (glBufferSubData t off sz src g) = TEXTURE_MAX_LEVEL g"
  "active_texture (glBufferSubData t off sz src g) = active_texture g"
  "texture_binding (glBufferSubData t off sz src g) = texture_binding g"
  "sampler_binding (glBufferSubData t off sz src g) = sampler_binding g"
  "current_program (glBufferSubData t off sz src g) = current_program g"
  "indexed_binding (glBufferSubData t off sz src g) = indexed_binding g"
  "generic_binding (glBufferSubData t off sz src g) = generic_binding g"
  "buffer_size (glBufferSubData t off sz src g) = buffer_size g"
  "buffer_data (glBufferSubData t off sz src g) = (if off + sz \<le> buffer_size g (generic_binding g t) then (buffer_data g)(generic_binding g t := take off (fit (buffer_size g (generic_binding g t)) (buffer_data g (generic_binding g t))) @ take sz src @ drop (off + sz) (fit (buffer_size g (generic_binding g t)) (buffer_data g (generic_binding g t)))) else buffer_data g)"
  "uniform_data (glBufferSubData t off sz src g) = uniform_data g"
  "pick_results (glBufferSubData t off sz src g) = pick_results g"
  "last_name (glBufferSubData t off sz src g) = last_name g"
  by (simp_all add: glBufferSubData_def issue_def Let_def)

lemma glDeleteBuffers_fields [simp]:
  "calls (glDeleteBuffers b g) = calls g @ [DeleteBuffers b]"
  "current_context (glDeleteBuffers b g) = current_context g"
  "draw_framebuffer (glDeleteBuffers b g) = draw_framebuffer g"
  "read_framebuffer (glDeleteBuffers b g) = read_framebuffer g"
  "framebuffer_attachment (glDeleteBuffers b g) = framebuffer_attachment g"
  "image (glDeleteBuffers b g) = image g"
  "TEXTURE_MAX_LEVEL (glDeleteBuffers b g) = TEXTURE_MAX_LEVEL g"
  "active_texture (glDeleteBuffers b g) = active_texture g"
  "texture_binding (glDeleteBuffers b g) = texture_binding g"
  "sampler_binding (glDeleteBuffers b g) = sampler_binding g"
  "current_program (glDeleteBuffers b g) = current_program g"
  "indexed_binding (glDeleteBuffers b g) = indexed_binding g"
  "generic_binding (glDeleteBuffers b g) = generic_binding g"
  "buffer_size (glDeleteBuffers b g) = (if b = 0 then buffer_size g else (buffer_size g)(b := 0))"
  "buffer_data (glDeleteBuffers b g) = (if b = 0 then buffer_data g else (buffer_data g)(b := []))"
  "uniform_data (glDeleteBuffers b g) = uniform_data g"
  "pick_results (glDeleteBuffers b g) = pick_results g"
  "last_name (glDeleteBuffers b g) = last_name g"
  by (simp_all add: glDeleteBuffers_def issue_def Let_def)

lemma glGenBuffers_fields [simp]:
  "fst (glGenBuffers g) = (if last_name g + 1 = 0 then 1 else last_name g + 1)"
  "calls (snd (glGenBuffers g)) = calls g @ [GenBuffers]"
  "current_context (snd (glGenBuffers g)) = current_context g"
  "draw_framebuffer (snd (glGenBuffers g)) = draw_framebuffer g"
  "read_framebuffer (snd (glGenBuffers g)) = read_framebuffer g"
  "framebuffer_attachment (snd (glGenBuffers g)) = framebuffer_attachment g"
  "image (snd (glGenBuffers g)) = image g"
  "TEXTURE_MAX_LEVEL (snd (glGenBuffers g)) = TEXTURE_MAX_LEVEL g"
  "active_texture (snd (glGenBuffers g)) = active_texture g"
  "texture_binding (snd (glGenBuffers g)) = texture_binding g"
  "sampler_binding (snd (glGenBuffers g)) = sampler_binding g"
  "current_program (snd (glGenBuffers g)) = current_program g"
  "indexed_binding (snd (glGenBuffers g)) = indexed_binding g"
  "generic_binding (snd (glGenBuffers g)) = generic_binding g"
  "buffer_size (snd (glGenBuffers g)) = buffer_size g"
  "buffer_data (snd (glGenBuffers g)) = buffer_data g"
  "uniform_data (snd (glGenBuffers g)) = uniform_data g"
  "pick_results (snd (glGenBuffers g)) = pick_results g"
  "last_name (snd (glGenBuffers g)) = (if last_name g + 1 = 0 then 1 else last_name g + 1)"
  by (simp_all add: glGenBuffers_def issue_def Let_def)

lemma glNamedBufferDataEXT_fields [simp]:
  "calls (glNamedBufferDataEXT b sz g) = calls g @ [NamedBufferData b sz]"
  "current_context (glNamedBufferDataEXT b sz g) = current_context g"
  "draw_framebuffer (glNamedBufferDataEXT b sz g) = draw_framebuffer g"
  "read_framebuffer (glNamedBufferDataEXT b sz g) = read_framebuffer g"
  "framebuffer_attachment (glNamedBufferDataEXT b sz g) = framebuffer_attachment g"
  "image (glNamedBufferDataEXT b sz g) = image g"
  "TEXTURE_MAX_LEVEL (glNamedBufferDataEXT b sz g) = TEXTURE_MAX_LEVEL g"
  "active_texture (glNamedBufferDataEXT b sz g) = active_texture g"
  "texture_binding (glNamedBufferDataEXT b sz g) = texture_binding g"
  "sampler_binding (glNamedBufferDataEXT b sz g) = sampler_binding g"
  "current_program (glNamedBufferDataEXT b sz g) = current_program g"
  "indexed_binding (glNamedBufferDataEXT b sz g) = indexed_binding g"
  "generic_binding (glNamedBufferDataEXT b sz g) = generic_binding g"
  "buffer_size (glNamedBufferDataEXT b sz g) = (buffer_size g)(b := sz)"
  "buffer_data (glNamedBufferDataEXT b sz g) = (buffer_data g)(b := replicate sz 0)"
  "uniform_data (glNamedBufferDataEXT b sz g) = uniform_data g"
  "pick_results (glNamedBufferDataEXT b sz g) = pick_results g"
  "last_name (glNamedBufferDataEXT b sz g) = last_name g"
  by (simp_all add: glNamedBufferDataEXT_def issue_def Let_def)

lemma glMapNamedBufferEXT_fields [simp]:
  "calls (glMapNamedBufferEXT b g) = calls g @ [MapNamedBuffer b]"
  "current_context (glMapNamedBufferEXT b g) = current_context g"
  "draw_framebuffer (glMapNamedBufferEXT b g) = draw_framebuffer g"
  "read_framebuffer (glMapNamedBufferEXT b g) = read_framebuffer g"
  "framebuffer_attachment (glMapNamedBufferEXT b g) = framebuffer_attachment g"
  "image (glMapNamedBufferEXT b g) = image g"
  "TEXTURE_MAX_LEVEL (glMapNamedBufferEXT b g) = TEXTURE_MAX_LEVEL g"
  "active_texture (glMapNamedBufferEXT b g) = active_texture g"
  "texture_binding (glMapNamedBufferEXT b g) = texture_binding g"
  "sampler_binding (glMapNamedBufferEXT b g) = sampler_binding g"
  "current_program (glMapNamedBufferEXT b g) = current_program g"
  "indexed_binding (glMapNamedBufferEXT b g) = indexed_binding g"
  "generic_binding (glMapNamedBufferEXT b g) = generic_binding g"
  "buffer_size (glMapNamedBufferEXT b g) = buffer_size g"
  "buffer_data (glMapNamedBufferEXT b g) = buffer_data g"
  "uniform_data (glMapNamedBufferEXT b g) = uniform_data g"
  "pick_results (glMapNamedBufferEXT b g) = pick_results g"
  "last_name (glMapNamedBufferEXT b g) = last_name g"
  by (simp_all add: glMapNamedBufferEXT_def issue_def Let_def)

lemma glUnmapNamedBufferEXT_fields [simp]:
  "calls (glUnmapNamedBufferEXT b g) = calls g @ [UnmapNamedBuffer b]"
  "current_context (glUnmapNamedBufferEXT b g) = current_context g"
  "draw_framebuffer (glUnmapNamedBufferEXT b g) = draw_framebuffer g"
  "read_framebuffer (glUnmapNamedBufferEXT b g) = read_framebuffer g"
  "framebuffer_attachment (glUnmapNamedBufferEXT b g) = framebuffer_attachment g"
  "image (glUnmapNamedBufferEXT b g) = image g"
  "TEXTURE_MAX_LEVEL (glUnmapNamedBufferEXT b g) = TEXTURE_MAX_LEVEL g"
  "active_texture (glUnmapNamedBufferEXT b g) = active_texture g"
  "texture_binding (glUnmapNamedBufferEXT b g) = texture_binding g"
  "sampler_binding (glUnmapNamedBufferEXT b g) = sampler_binding g"
  "current_program (glUnmapNamedBufferEXT b g) = current_program g"
  "indexed_binding (glUnmapNamedBufferEXT b g) = indexed_binding g"
  "generic_binding (glUnmapNamedBufferEXT b g) = generic_binding g"
  "buffer_size (glUnmapNamedBufferEXT b g) = buffer_size g"
  "buffer_data (glUnmapNamedBufferEXT b g) = buffer_data g"
  "uniform_data (glUnmapNamedBufferEXT b g) = uniform_data g"
  "pick_results (glUnmapNamedBufferEXT b g) = pick_results g"
  "last_name (glUnmapNamedBufferEXT b g) = last_name g"
  by (simp_all add: glUnmapNamedBufferEXT_def issue_def Let_def)

lemma blit_renderbuffer_fields [simp]:
  "calls (blit_renderbuffer t g) = calls g @
     [MakeCurrent ReplayCtx, GetIntegerv eGL_DRAW_FRAMEBUFFER, GetIntegerv eGL_READ_FRAMEBUFFER,
      BindFramebuffer eGL_DRAW_FRAMEBUFFER (snd (renderbufferFBOs t)),
      BindFramebuffer eGL_READ_FRAMEBUFFER (fst (renderbufferFBOs t)),
      BlitFramebuffer (td_width t) (td_height t),
      BindFramebuffer eGL_DRAW_FRAMEBUFFER (draw_framebuffer g),
      BindFramebuffer eGL_READ_FRAMEBUFFER (read_framebuffer g)]"
  "current_context (blit_renderbuffer t g) = ReplayCtx"
  "draw_framebuffer (blit_renderbuffer t g) = draw_framebuffer g"
  "read_framebuffer (blit_renderbuffer t g) = read_framebuffer g"
  "framebuffer_attachment (blit_renderbuffer t g) = framebuffer_attachment g"
  "image (blit_renderbuffer t g) = (image g)
     (framebuffer_attachment g (snd (renderbufferFBOs t)) :=
        image g (framebuffer_attachment g (fst (renderbufferFBOs t))))"
  "TEXTURE_MAX_LEVEL (blit_renderbuffer t g) = TEXTURE_MAX_LEVEL g"
  "active_texture (blit_renderbuffer t g) = active_texture g"
  "texture_binding (blit_renderbuffer t g) = texture_binding g"
  "sampler_binding (blit_renderbuffer t g) = sampler_binding g"
  "current_program (blit_renderbuffer t g) = current_program g"
  "indexed_binding (blit_renderbuffer t g) = indexed_binding g"
  "generic_binding (blit_renderbuffer t g) = generic_binding g"
  "buffer_size (blit_renderbuffer t g) = buffer_size g"
  "buffer_data (blit_renderbuffer t g) = buffer_data g"
  "uniform_data (blit_renderbuffer t g) = uniform_data g"
  "pick_results (blit_renderbuffer t g) = pick_results g"
  "last_name (blit_renderbuffer t g) = last_name g"
  by (simp_all add: blit_renderbuffer_def Let_def case_prod_beta)

lemma bind_and_clamp_fields [simp]:
  "fst (bind_and_clamp K D slot target texname details g) = (if mips details - 1 \<noteq> TEXTURE_MAX_LEVEL g texname then TEXTURE_MAX_LEVEL g texname else - 1)"
  "calls (snd (bind_and_clamp K D slot target texname details g)) = calls g @ [ActiveTexture slot, BindTexture target texname, BindSampler slot (if slot = RESTYPE_TEXRECT K \<or> slot = RESTYPE_TEXBUFFER K then pointNoMipSampler D else pointSampler D), GetTextureParameteriv_MAX_LEVEL texname target] @ (if mips details - 1 \<noteq> TEXTURE_MAX_LEVEL g texname then [TextureParameteriv_MAX_LEVEL texname target (mips details - 1)] else [])"
  "current_context (snd (bind_and_clamp K D slot target texname details g)) = current_context g"
  "draw_framebuffer (snd (bind_and_clamp K D slot target texname details g)) = draw_framebuffer g"
  "read_framebuffer (snd (bind_and_clamp K D slot target texname details g)) = read_framebuffer g"
  "framebuffer_attachment (snd (bind_and_clamp K D slot target texname details g)) = framebuffer_attachment g"
  "image (snd (bind_and_clamp K D slot target texname details g)) = image g"
  "TEXTURE_MAX_LEVEL (snd (bind_and_clamp K D slot target texname details g)) = (TEXTURE_MAX_LEVEL g)(texname := mips details - 1)"
  "active_texture (snd (bind_and_clamp K D slot target texname details g)) = slot"
  "texture_binding (snd (bind_and_clamp K D slot target texname details g)) = (texture_binding g)(slot := (target, texname))"
  "sampler_binding (snd (bind_and_clamp K D slot target texname details g)) = (sampler_binding g)(slot := (if slot = RESTYPE_TEXRECT K \<or> slot = RESTYPE_TEXBUFFER K then pointNoMipSampler D else pointSampler D))"
  "current_program (snd (bind_and_clamp K D slot target texname details g)) = current_program g"
  "indexed_binding (snd (bind_and_clamp K D slot target texname details g)) = indexed_binding g"
  "generic_binding (snd (bind_and_clamp K D slot target texname details g)) = generic_binding g"
  "buffer_size (snd (bind_and_clamp K D slot target texname details g)) = buffer_size g"
  "buffer_data (snd (bind_and_clamp K D slot target texname details g)) = buffer_data g"
  "uniform_data (snd (bind_and_clamp K D slot target texname details g)) = uniform_data g"
  "pick_results (snd (bind_and_clamp K D slot target texname details g)) = pick_results g"
  "last_name (snd (bind_and_clamp K D slot target texname details g)) = last_name g"
  by (auto simp: bind_and_clamp_def Let_def case_prod_beta)

lemma restore_maxlevel_fields [simp]:
  "calls (restore_maxlevel texname target maxlevel g) = calls g @ (if 0 \<le> sint maxlevel then [TextureParameteriv_MAX_LEVEL texname target maxlevel] else [])"
  "current_context (restore_maxlevel texname target maxlevel g) = current_context g"
  "draw_framebuffer (restore_maxlevel texname target maxlevel g) = draw_framebuffer g"
  "read_framebuffer (restore_maxlevel texname target maxlevel g) = read_framebuffer g"
  "framebuffer_attachment (restore_maxlevel texname target maxlevel g) = framebuffer_attachment g"
  "image (restore_maxlevel texname target maxlevel g) = image g"
  "TEXTURE_MAX_LEVEL (restore_maxlevel texname target maxlevel g) = (if 0 \<le> sint maxlevel then (TEXTURE_MAX_LEVEL g)(texname := maxlevel) else TEXTURE_MAX_LEVEL g)"
  "active_texture (restore_maxlevel texname target maxlevel g) = active_texture g"
  "texture_binding (restore_maxlevel texname target maxlevel g) = texture_binding g"
  "sampler_binding (restore_maxlevel texname target maxlevel g) = sampler_binding g"
  "current_program (restore_maxlevel texname target maxlevel g) = current_program g"
  "indexed_binding (restore_maxlevel texname target maxlevel g) = indexed_binding g"
  "generic_binding (restore_maxlevel texname target maxlevel g) = generic_binding g"
  "buffer_size (restore_maxlevel texname target maxlevel g) = buffer_size g"
  "buffer_data (restore_maxlevel texname target maxlevel g) = buffer_data g"
  "uniform_data (restore_maxlevel texname target maxlevel g) = uniform_data g"
  "pick_results (restore_maxlevel texname target maxlevel g) = pick_results g"
  "last_name (restore_maxlevel texname target maxlevel g) = last_name g"
  by (simp_all add: restore_maxlevel_def)

section \<open>Missing compute capability\<close>

text \<open>
  C8. When \<open>ARB_compute_shader\<close> is absent, every call of \<open>GetMinMax\<close> and \<open>GetHistogram\<close>
  returns failure and every call of \<open>PickVertex\<close> returns \<open>~0U\<close>, each without changing
  the state (so without recording a message); \<open>InitDebugData\<close> records the portability
  messages once each, leaves the mesh-pick program at zero, and returns normally.
\<close>

theorem no_compute_shader_disables_features:
  assumes "\<not> HasExt_ARB_compute_shader s"
  shows "GetMinMax K G s texid sliceFace mip sample typeHint out = (False, out, s)
       \<and> GetHistogram K G s texid sliceFace mip sample typeHint minval maxval channels histogram
           = (False, histogram, s)
       \<and> PickVertex K G X s eventId w h cfg x y = Inr (0xFFFFFFFF, s)
       \<and> debug_messages (InitDebugData K X s) =
           debug_messages s @ [no_compute_minmax, no_compute_2dms, no_compute_meshpick]
       \<and> meshPickProgram (DebugData (InitDebugData K X s)) = 0
       \<and> HasExt_ARB_compute_shader (InitDebugData K X s) = HasExt_ARB_compute_shader s"
proof -
  have "GetMinMax K G s texid sliceFace mip sample typeHint out = (False, out, s)"
    using assms by (simp add: GetMinMax_def)
  moreover have "GetHistogram K G s texid sliceFace mip sample typeHint minval maxval channels
      histogram = (False, histogram, s)"
    using assms by (simp add: GetHistogram_def)
  moreover have "PickVertex K G X s eventId w h cfg x y = Inr (0xFFFFFFFF, s)"
    using assms by (simp add: PickVertex_def)
  moreover have "debug_messages (InitDebugData K X s) =
      debug_messages s @ [no_compute_minmax, no_compute_2dms, no_compute_meshpick]"
    "meshPickProgram (DebugData (InitDebugData K X s)) = 0"
    "HasExt_ARB_compute_shader (InitDebugData K X s) = HasExt_ARB_compute_shader s"
    using assms
    by (simp_all add: InitDebugData_def Let_def case_prod_beta AddDebugMessage_def RDCWARN_def)
  ultimately show ?thesis by simp
qed

theorem no_compute_shader_witness:
  "\<not> HasExt_ARB_compute_shader example_no_compute
   \<and> GetMinMax example_consts example_gpu example_no_compute 1 0 0 0 Float ([], [])
       = (False, ([], []), example_no_compute)
   \<and> GetHistogram example_consts example_gpu example_no_compute 1 0 0 0 Float 0 1
       (True, True, True, True) [] = (False, [], example_no_compute)
   \<and> PickVertex example_consts example_gpu example_externals example_no_compute 0 100 100
       (example_mesh PointList) 50 50 = Inr (0xFFFFFFFF, example_no_compute)
   \<and> debug_messages (InitDebugData example_consts example_externals example_no_compute) =
       debug_messages example_no_compute @ [no_compute_minmax, no_compute_2dms, no_compute_meshpick]"
proof -
  have h: "\<not> HasExt_ARB_compute_shader example_no_compute"
    by (simp add: example_no_compute_def)
  show ?thesis
    using h no_compute_shader_disables_features [OF h, of example_consts example_gpu 1 0 0 0 Float
        "([], [])" 0 1 "(True, True, True, True)" "[]" example_externals 0 100 100
        "example_mesh PointList" 50 50]
    by simp
qed

section \<open>The mip range during the passes\<close>













section \<open>Repeating a histogram request\<close>












lemma length_compress_fold:
  "length (fold (\<lambda>i h. h[i := h ! (i * 4)]) is xs) = length xs"
  by (induction "is" arbitrary: xs) simp_all


text \<open>The in-place loop keeps word \<open>4 * i\<close> of the buffer as bucket \<open>i\<close>.\<close>

lemma compress_fold_nth:
  assumes "k \<le> n" and "length xs = 4 * n"
  shows "\<forall>j<length xs. fold (\<lambda>i h. h[i := h ! (i * 4)]) [1..<k] xs ! j =
     (if 1 \<le> j \<and> j < k then xs ! (j * 4) else xs ! j)"
  using assms(1)
proof (induction k)
  case 0
  then show ?case by simp
next
  case (Suc k)
  show ?case
  proof (cases "1 \<le> k")
    case False
    then have "k = 0" by simp
    then show ?thesis by simp
  next
    case True
    let ?h = "fold (\<lambda>i h. h[i := h ! (i * 4)]) [1..<k] xs"
    have len: "length ?h = length xs" by (rule length_compress_fold)
    have ih: "\<forall>j<length xs. ?h ! j = (if 1 \<le> j \<and> j < k then xs ! (j * 4) else xs ! j)"
      using Suc by simp
    have k4: "k * 4 < length xs" using Suc.prems assms(2) by simp
    have step: "fold (\<lambda>i h. h[i := h ! (i * 4)]) [1..<Suc k] xs = ?h[k := ?h ! (k * 4)]"
      using True by simp
    have at4: "?h ! (k * 4) = xs ! (k * 4)"
      using ih k4 True by simp
    show ?thesis
      unfolding step
    proof (intro allI impI)
      fix j assume j: "j < length xs"
      show "?h[k := ?h ! (k * 4)] ! j = (if 1 \<le> j \<and> j < Suc k then xs ! (j * 4) else xs ! j)"
      proof (cases "j = k")
        case True
        then show ?thesis using j len at4 \<open>1 \<le> k\<close> by simp
      next
        case False
        then show ?thesis using ih j by (simp add: less_Suc_eq)
      qed
    qed
  qed
qed

lemma compress_uvec4_buckets:
  assumes "length xs = 4 * n"
  shows "compress_uvec4 n xs = map (\<lambda>i. xs ! (4 * i)) [0..<n]"
proof (rule nth_equalityI)
  show "length (compress_uvec4 n xs) = length (map (\<lambda>i. xs ! (4 * i)) [0..<n])"
    using assms by (simp add: compress_uvec4_def length_compress_fold)
next
  fix i assume "i < length (compress_uvec4 n xs)"
  then have i: "i < n" using assms by (simp add: compress_uvec4_def length_compress_fold)
  then have "i < length xs" using assms by simp
  with compress_fold_nth [OF order_refl assms] i
  show "compress_uvec4 n xs ! i = map (\<lambda>i. xs ! (4 * i)) [0..<n] ! i"
    by (cases "i = 0") (simp_all add: compress_uvec4_def mult.commute)
qed



lemma GetHistogram_count_ok: "fst (GetHistogram_count K G loc s) = True"
  by (simp add: GetHistogram_count_def Let_def case_prod_beta)




section \<open>Textures of an unexpected type\<close>
















section \<open>The upper bound of the histogram range\<close>

lemma GetHistogram_uploads:
  assumes "minval < maxval" "texid \<noteq> 0" "m_Textures s texid = Some t" "HasExt_ARB_compute_shader s"
  shows "uploaded_HistogramMax (gl (snd (snd (GetHistogram K G s texid sliceFace mip sample typeHint
           minval maxval channels histogram)))) = Some (HistogramMax_of maxval)"
  using assms
  by (simp add: GetHistogram_def GetHistogram_prepare_def GetHistogram_count_def Let_def
      case_prod_beta uploaded_HistogramMax_def RDCWARN_def)

lemma HistogramMax_raised_when_positive: "0 < maxval \<Longrightarrow> maxval < HistogramMax_of maxval"
  by (simp add: HistogramMax_of_def)

lemma HistogramMax_not_raised_otherwise: "maxval \<le> 0 \<Longrightarrow> HistogramMax_of maxval \<le> maxval"
  by (simp add: HistogramMax_of_def mult_le_0_iff)

text \<open>
  C3 at the request \<open>minval = -1\<close>, \<open>maxval = 0\<close>, which passes the guard \<open>minval < maxval\<close>:
  the call succeeds and the bound uploaded as \<open>HistogramMax\<close> is 0, which is \<open>maxval\<close>
  itself and not a greater value. For \<open>minval = -2\<close>, \<open>maxval = -1\<close> the uploaded bound is
  below \<open>maxval\<close>. At both inputs the products and sums are exact or round to the same
  side in single precision as well.
\<close>

theorem histogram_max_not_raised_at_zero:
  "fst (GetHistogram example_consts example_gpu example_replay 1 0 0 0 Float (- 1) 0
          (True, True, True, True) []) = True
   \<and> uploaded_HistogramMax (gl (snd (snd (GetHistogram example_consts example_gpu example_replay
          1 0 0 0 Float (- 1) 0 (True, True, True, True) [])))) = Some 0
   \<and> uploaded_HistogramMax (gl (snd (snd (GetHistogram example_consts example_gpu example_replay
          1 0 0 0 Float (- 2) (- 1) (True, True, True, True) [])))) = Some (- 1000001 / 1000000)"
proof -
  have t: "m_Textures example_replay 1 = Some example_texture"
    "HasExt_ARB_compute_shader example_replay"
    by (simp_all add: example_replay_def)
  have run: "GetHistogram example_consts example_gpu example_replay 1 0 0 0 Float (- 1) 0
          (True, True, True, True) [] =
        GetHistogram_count example_consts example_gpu
          (fst (GetHistogram_prepare example_consts example_replay 1 example_texture 0 0 0 (- 1) 0
             (True, True, True, True)))
          (snd (GetHistogram_prepare example_consts example_replay 1 example_texture 0 0 0 (- 1) 0
             (True, True, True, True)))"
    using t by (simp add: GetHistogram_def Let_def case_prod_beta)
  have ok: "fst (GetHistogram example_consts example_gpu example_replay 1 0 0 0 Float (- 1) 0
          (True, True, True, True) []) = True"
    unfolding run by (rule GetHistogram_count_ok)
  have a: "uploaded_HistogramMax (gl (snd (snd (GetHistogram example_consts example_gpu
      example_replay 1 0 0 0 Float (- 1) 0 (True, True, True, True) [])))) = Some (HistogramMax_of 0)"
    by (rule GetHistogram_uploads [OF _ _ t]) simp_all
  have b: "uploaded_HistogramMax (gl (snd (snd (GetHistogram example_consts example_gpu
      example_replay 1 0 0 0 Float (- 2) (- 1) (True, True, True, True) [])))) =
      Some (HistogramMax_of (- 1))"
    by (rule GetHistogram_uploads [OF _ _ t]) simp_all
  show ?thesis
    using ok a b by (simp add: HistogramMax_of_def)
qed

section \<open>The index pass\<close>

text \<open>
  What the loops compute for any stride: the stream of the fetched elements with the
  base vertex applied, and its minimum and maximum. For strides 1 and 2 the fetched
  elements are the indices of the buffer, so the result is the reference computation.
\<close>

lemma apply_baseVertex_spec:
  "apply_baseVertex (idxclamp_of bv) bv raw = spec_normalise bv raw"
  by (simp add: apply_baseVertex_def idxclamp_of_def spec_normalise_def)

lemma ref_min_snoc: "xs \<noteq> [] \<Longrightarrow> ref_min (xs @ [y]) = min y (ref_min xs)"
  by (cases xs) (simp_all add: ref_min_def)

lemma ref_max_snoc: "xs \<noteq> [] \<Longrightarrow> ref_max (xs @ [y]) = max y (ref_max xs)"
  by (cases xs) (simp_all add: ref_max_def)

lemma idx_loop_prefix:
  assumes "k \<le> N"
  shows "fold (idx_loop_body stride bv idxs) [0..<k] (m0, M0, replicate N 0) =
     (if k = 0 then (m0, M0, replicate N 0)
      else (ref_min (map (\<lambda>i. apply_baseVertex (idxclamp_of bv) bv (fetch_idx stride idxs i)) [0..<k]),
            ref_max (map (\<lambda>i. apply_baseVertex (idxclamp_of bv) bv (fetch_idx stride idxs i)) [0..<k]),
            map (\<lambda>i. apply_baseVertex (idxclamp_of bv) bv (fetch_idx stride idxs i)) [0..<k]
              @ replicate (N - k) 0))"
  using assms
proof (induction k)
  case 0
  then show ?case by simp
next
  case (Suc k)
  let ?f = "\<lambda>i. apply_baseVertex (idxclamp_of bv) bv (fetch_idx stride idxs i)"
  have rep: "replicate (N - k) (0::u32) = 0 # replicate (N - Suc k) 0"
    using Suc.prems by (cases "N - k") (simp_all add: Suc_diff_Suc)
  have upd: "(map ?f [0..<k] @ replicate (N - k) 0)[k := ?f k] =
      map ?f [0..<Suc k] @ replicate (N - Suc k) 0"
    by (simp add: rep list_update_append)
  show ?case
  proof (cases "k = 0")
    case True
    then show ?thesis
      using Suc.prems rep by (simp add: idx_loop_body_def Let_def ref_min_def ref_max_def)
  next
    case False
    then have ne: "map ?f [0..<k] \<noteq> []" by simp
    from Suc False have ih: "fold (idx_loop_body stride bv idxs) [0..<k] (m0, M0, replicate N 0) =
      (ref_min (map ?f [0..<k]), ref_max (map ?f [0..<k]), map ?f [0..<k] @ replicate (N - k) 0)"
      by simp
    have "fold (idx_loop_body stride bv idxs) [0..<Suc k] (m0, M0, replicate N 0) =
      idx_loop_body stride bv idxs k
        (ref_min (map ?f [0..<k]), ref_max (map ?f [0..<k]), map ?f [0..<k] @ replicate (N - k) 0)"
      using ih by simp
    also have "\<dots> = (min (?f k) (ref_min (map ?f [0..<k])), max (?f k) (ref_max (map ?f [0..<k])),
        map ?f [0..<Suc k] @ replicate (N - Suc k) 0)"
      using False upd by (simp add: idx_loop_body_def Let_def)
    finally show ?thesis
      using ne by (simp add: ref_min_snoc ref_max_snoc)
  qed
qed

lemma normalise_indices_stream:
  "normalise_indices stride bv n idxs =
     (if n = 0 then (0, n, [])
      else (ref_min (map (\<lambda>i. spec_normalise bv (fetch_idx stride idxs i)) [0..<unat n]),
            ref_max (map (\<lambda>i. spec_normalise bv (fetch_idx stride idxs i)) [0..<unat n]),
            map (\<lambda>i. spec_normalise bv (fetch_idx stride idxs i)) [0..<unat n]))"
  using idx_loop_prefix [of "unat n" "unat n" stride bv idxs 0 n]
  by (simp add: normalise_indices_def apply_baseVertex_spec unat_eq_0)

lemma raw_index_one: "i < length bytes \<Longrightarrow> raw_index 1 bytes i = ucast (bytes ! i)"
  by (simp add: raw_index_def take_Suc_conv_app_nth hd_drop_conv_nth take_Suc)

lemma raw_index_two:
  assumes "2 * i + 1 < length bytes"
  shows "raw_index 2 bytes i = idxs16 bytes i"
proof -
  have t: "take 2 (drop (2 * i) bytes) = [bytes ! (2 * i), bytes ! (2 * i + 1)]"
    using assms by (simp add: numeral_2_eq_2 take_Suc hd_drop_conv_nth drop_Suc [symmetric] tl_drop)
  have "(ucast (a::u8) :: u32) OR push_bit 8 (ucast (b::u8)) = ucast a + push_bit 8 (ucast b)" for a b
    by (rule disjunctive_add [symmetric]) (auto simp: bit_simps dest: bit_imp_le_length)
  then show ?thesis
    by (simp add: raw_index_def t idxs16_def push_bit_eq_mult)
qed


lemma normalise_indices_stride1:
  assumes "unat n \<le> length idxs"
  shows "normalise_indices 1 bv n idxs =
     (if n = 0 then (0, n, [])
      else (ref_min (spec_stream 1 bv (unat n) idxs), ref_max (spec_stream 1 bv (unat n) idxs),
            spec_stream 1 bv (unat n) idxs))"
proof -
  have "map (\<lambda>i. spec_normalise bv (fetch_idx 1 idxs i)) [0..<unat n] = spec_stream 1 bv (unat n) idxs"
    unfolding spec_stream_def using assms
    by (intro map_cong) (simp_all add: fetch_idx_def idxs8_def raw_index_one [unfolded One_nat_def])
  then show ?thesis by (simp add: normalise_indices_stream)
qed

lemma normalise_indices_stride2:
  assumes "2 * unat n \<le> length idxs"
  shows "normalise_indices 2 bv n idxs =
     (if n = 0 then (0, n, [])
      else (ref_min (spec_stream 2 bv (unat n) idxs), ref_max (spec_stream 2 bv (unat n) idxs),
            spec_stream 2 bv (unat n) idxs))"
proof -
  have "map (\<lambda>i. spec_normalise bv (fetch_idx 2 idxs i)) [0..<unat n] = spec_stream 2 bv (unat n) idxs"
    unfolding spec_stream_def using assms
    by (intro map_cong) (simp_all add: fetch_idx_def raw_index_two)
  then show ?thesis by (simp add: normalise_indices_stream)
qed

text \<open>
  C1 at a concrete buffer of two 4-byte indices, 256 and 5, with base vertex 0. The
  branch for stride 4 reads \<open>idxs[i]\<close> through the byte pointer, so it takes the bytes 0
  and 1 of the buffer as the two indices: the stream written is 0, 1 with minimum 0 and
  maximum 1, whereas the normalised indices of the buffer are 256, 5 with minimum 5 and
  maximum 256.
\<close>

theorem four_byte_indices_read_as_bytes:
  "normalise_indices 4 0 2 [0, 1, 0, 0, 5, 0, 0, 0] = (0, 1, [0, 1])
   \<and> spec_stream 4 0 2 [0, 1, 0, 0, 5, 0, 0, 0] = [256, 5]
   \<and> ref_min (spec_stream 4 0 2 [0, 1, 0, 0, 5, 0, 0, 0]) = 5
   \<and> ref_max (spec_stream 4 0 2 [0, 1, 0, 0, 5, 0, 0, 0]) = 256"
proof -
  have u: "[0..<unat (2::u32)] = [0, 1]" "[0..<(2::nat)] = [0, 1]"
    by (simp_all add: upt_rec)
  have "unat (2::u32) = Suc (Suc 0)" by simp
  then have r: "replicate (unat (2::u32)) (0::u32) = [0, 0]"
    by (simp only: replicate.simps)
  have code: "normalise_indices 4 0 2 [0, 1, 0, 0, 5, 0, 0, 0] = (0, 1, [0, 1])"
    unfolding normalise_indices_def u r
    by (simp add: idx_loop_body_def fetch_idx_def apply_baseVertex_def idxclamp_of_def)
  have spec: "spec_stream 4 0 2 [0, 1, 0, 0, 5, 0, 0, 0] = [256, 5]"
    unfolding spec_stream_def u
    by (simp add: spec_normalise_def raw_index_def)
  show ?thesis
    unfolding spec using code by (simp add: ref_min_def ref_max_def)
qed


section \<open>The staging buffers of \<open>PickVertex\<close>\<close>
















lemma PickVertex_Inr:
  assumes "PickVertex K G X s eventId w h cfg x y = Inr (v, s')" and "HasExt_ARB_compute_shader s"
  obtains sc where
    "vertex_pass K X cfg
       (fst (fst (staged_indices K (position cfg) (snd (upload_pick_uniforms X s w h cfg x y)))))
       (snd (fst (staged_indices K (position cfg) (snd (upload_pick_uniforms X s w h cfg x y)))))
       (snd (staged_indices K (position cfg) (snd (upload_pick_uniforms X s w h cfg x y)))) = Inr sc"
    and "s' = dispatch_pick G (position cfg) sc"
    and "v = resolve_pick K (snd (fst (upload_pick_uniforms X s w h cfg x y)))
               (fst (fst (upload_pick_uniforms X s w h cfg x y))) (pick_results (gl s'))"
  using assms by (auto simp: PickVertex_def Let_def case_prod_beta split: sum.splits)










lemma vertex_pass_Inr:
  "vertexByteStride (position cfg) \<noteq> 0 \<Longrightarrow> \<exists>sc. vertex_pass K X cfg mn mx s = Inr sc"
  by (simp add: vertex_pass_def Let_def)

lemma upload_pick_uniforms_fst:
  "fst (upload_pick_uniforms X s w h cfg x y) =
     (fst (pick_ray X w h cfg x y), snd (meshMode_switch (topology (position cfg))))"
  by (simp add: upload_pick_uniforms_def Let_def case_prod_beta)

lemma dispatch_pick_results:
  "\<exists>gd. pick_results (gl (dispatch_pick G pos s)) =
          compute_pick G (uint (numIndices pos div 128 + 1), 1, 1) gd"
  by (simp add: dispatch_pick_def Let_def) blast

lemma PickVertex_no_crash:
  assumes "HasExt_ARB_compute_shader s" and "vertexByteStride (position cfg) \<noteq> 0"
  shows "\<exists>s' gd. PickVertex K G X s eventId w h cfg x y =
           Inr (resolve_pick K (snd (meshMode_switch (topology (position cfg))))
                  (fst (pick_ray X w h cfg x y))
                  (compute_pick G (uint (numIndices (position cfg) div 128 + 1), 1, 1) gd), s')
         \<and> pick_results (gl s') =
             compute_pick G (uint (numIndices (position cfg) div 128 + 1), 1, 1) gd"
proof -
  let ?sa = "snd (upload_pick_uniforms X s w h cfg x y)"
  let ?ip = "staged_indices K (position cfg) ?sa"
  from vertex_pass_Inr [OF assms(2)] obtain sc where
    vp: "vertex_pass K X cfg (fst (fst ?ip)) (snd (fst ?ip)) (snd ?ip) = Inr sc" by blast
  from dispatch_pick_results obtain gd where
    pr: "pick_results (gl (dispatch_pick G (position cfg) sc)) =
           compute_pick G (uint (numIndices (position cfg) div 128 + 1), 1, 1) gd" by blast
  have "PickVertex K G X s eventId w h cfg x y =
          Inr (resolve_pick K (snd (meshMode_switch (topology (position cfg))))
                 (fst (pick_ray X w h cfg x y))
                 (pick_results (gl (dispatch_pick G (position cfg) sc))),
               dispatch_pick G (position cfg) sc)"
    using assms(1) vp
    by (simp add: PickVertex_def Let_def case_prod_beta upload_pick_uniforms_fst)
  with pr show ?thesis by auto
qed









section \<open>Reducing the pick candidates\<close>

lemma float_eq_rank:
  "a \<noteq> NaN \<Longrightarrow> b \<noteq> NaN \<Longrightarrow> float_eq a b \<longleftrightarrow> float_rank a = float_rank b"
  by (cases a; cases b) (simp_all add: float_eq_def)

lemma closer_point_key:
  assumes "no_NaN r" and "no_NaN c"
  shows "closer_point r c \<longleftrightarrow> pick_key r < pick_key c"
proof -
  from assms have n: "pt_len r \<noteq> NaN" "pt_len c \<noteq> NaN" "pt_depth r \<noteq> NaN" "pt_depth c \<noteq> NaN"
    by (simp_all add: no_NaN_def)
  have "closer_point r c \<longleftrightarrow>
      float_rank (pt_len r) < float_rank (pt_len c) \<or>
      (float_rank (pt_len r) = float_rank (pt_len c)
         \<and> float_rank (pt_depth r) < float_rank (pt_depth c)) \<or>
      (float_rank (pt_len r) = float_rank (pt_len c)
         \<and> float_rank (pt_depth r) = float_rank (pt_depth c) \<and> pt_vertid r < pt_vertid c)"
    by (simp add: closer_point_def float_less_def float_eq_rank n)
  also have "\<dots> \<longleftrightarrow> pick_key r < pick_key c"
    unfolding pick_key_def
    by (subst less_prod_def, subst less_prod_def [where 'b = u32]) (auto simp: less_le)
  finally show ?thesis .
qed

lemma closest_point_fold:
  "1 \<le> k \<Longrightarrow> k \<le> length rs \<Longrightarrow> \<forall>j<k. no_NaN (rs ! j) \<Longrightarrow>
   fold (\<lambda>i closest. if closer_point (rs ! i) (rs ! closest) then i else closest) [1..<k] 0 < k
   \<and> (\<forall>j<k. pick_key (rs ! fold (\<lambda>i closest. if closer_point (rs ! i) (rs ! closest) then i else closest) [1..<k] 0) \<le> pick_key (rs ! j))"
proof (induction k rule: dec_induct)
  case base
  then show ?case by simp
next
  case (step n)
  let ?f = "\<lambda>i closest. if closer_point (rs ! i) (rs ! closest) then i else closest"
  let ?c = "fold ?f [1..<n] 0"
  from step have ih: "?c < n" "\<forall>j<n. pick_key (rs ! ?c) \<le> pick_key (rs ! j)" by simp_all
  from step.prems ih(1) have nn: "no_NaN (rs ! n)" "no_NaN (rs ! ?c)" by simp_all
  note key = closer_point_key [OF nn]
  have unfold: "fold ?f [1..<Suc n] 0 = ?f n ?c" using step.hyps by simp
  show ?case
  proof (cases "closer_point (rs ! n) (rs ! ?c)")
    case True
    with key have lt: "pick_key (rs ! n) < pick_key (rs ! ?c)" by blast
    have "\<forall>j<Suc n. pick_key (rs ! n) \<le> pick_key (rs ! j)"
    proof (intro allI impI)
      fix j assume "j < Suc n"
      then consider "j < n" | "j = n" by linarith
      then show "pick_key (rs ! n) \<le> pick_key (rs ! j)"
        using ih(2) lt by cases (auto intro: less_imp_le order_trans)
    qed
    with True unfold show ?thesis by simp
  next
    case False
    with key have "\<not> pick_key (rs ! n) < pick_key (rs ! ?c)" by blast
    then have ge: "pick_key (rs ! ?c) \<le> pick_key (rs ! n)" by (rule leI)
    have "\<forall>j<Suc n. pick_key (rs ! ?c) \<le> pick_key (rs ! j)"
      using ih(2) ge by (auto simp: less_Suc_eq)
    with False unfold ih(1) show ?thesis by (simp add: less_Suc_eq)
  qed
qed

lemma closest_point_hit_Min:
  assumes "1 \<le> k" "k \<le> length rs" "k = unat (RDCMIN maxPicks n)"
    and "\<forall>r\<in>set (take k rs). no_NaN r"
  shows "pick_key (rs ! closest_point_hit maxPicks n rs) = Min (pick_key ` set (take k rs))"
proof -
  let ?c = "closest_point_hit maxPicks n rs"
  have set: "set (take k rs) = (\<lambda>j. rs ! j) ` {0..<k}"
    using nth_image [OF assms(2)] by simp
  with assms(4) have "\<forall>j<k. no_NaN (rs ! j)" by auto
  from closest_point_fold [OF assms(1,2) this]
  have c: "?c < k" "\<forall>j<k. pick_key (rs ! ?c) \<le> pick_key (rs ! j)"
    using assms(3) by (simp_all add: closest_point_hit_def)
  show ?thesis
  proof (rule Min_eqI [symmetric])
    show "finite (pick_key ` set (take k rs))" by simp
    show "pick_key (rs ! ?c) \<le> y" if "y \<in> pick_key ` set (take k rs)" for y
      using that c(2) set by auto
    show "pick_key (rs ! ?c) \<in> pick_key ` set (take k rs)"
      using c(1) set by auto
  qed
qed

text \<open>
  C4, as amended. When a \<open>PickVertex\<close> call on a topology that is not a triangle
  topology returns with at least one candidate, and neither the distance nor the depth
  of any of the first \<open>min(numResults, maxMeshPicks)\<close> candidates of the result buffer
  is a NaN, the vertex id returned is the third component of the lexicographic minimum
  of (distance to the cursor, depth, vertex id) over those candidates. It is therefore
  the same for every buffer whose first candidates are the same set in another order.
\<close>

theorem point_pick_is_lexicographic_minimum:
  assumes "PickVertex K G X s eventId w h cfg x y = Inr (v, s')"
    and "HasExt_ARB_compute_shader s"
    and "\<not> snd (meshMode_switch (topology (position cfg)))"
    and "0 < hdr_numResults (pick_results (gl s'))"
    and "0 < maxMeshPicks K"
    and "k = unat (RDCMIN (maxMeshPicks K) (hdr_numResults (pick_results (gl s'))))"
    and "k \<le> length (as_point_results (pick_results (gl s')))"
    and "\<forall>r\<in>set (take k (as_point_results (pick_results (gl s')))). no_NaN r"
  shows "v = snd (snd (Min (pick_key ` set (take k (as_point_results (pick_results (gl s')))))))
       \<and> (k \<le> length rs \<and> set (take k rs) = set (take k (as_point_results (pick_results (gl s'))))
            \<longrightarrow> pt_vertid (rs ! closest_point_hit (maxMeshPicks K)
                   (hdr_numResults (pick_results (gl s'))) rs) = v)"
proof -
  let ?buf = "pick_results (gl s')"
  let ?n = "hdr_numResults ?buf"
  from PickVertex_Inr [OF assms(1,2)]
  have "v = resolve_pick K (snd (fst (upload_pick_uniforms X s w h cfg x y)))
              (fst (fst (upload_pick_uniforms X s w h cfg x y))) ?buf"
    by blast
  then have v: "v = pt_vertid (as_point_results ?buf !
      closest_point_hit (maxMeshPicks K) ?n (as_point_results ?buf))"
    using assms(3,4) by (simp add: resolve_pick_def upload_pick_uniforms_fst)
  have k1: "1 \<le> k"
  proof -
    have "0 < RDCMIN (maxMeshPicks K) ?n" using assms(4,5) by (simp add: RDCMIN_def)
    then show ?thesis using assms(6) by (simp add: word_less_nat_alt)
  qed
  have key: "pick_key (xs ! closest_point_hit (maxMeshPicks K) ?n xs) =
      Min (pick_key ` set (take k xs))"
    if "k \<le> length xs" "\<forall>r\<in>set (take k xs). no_NaN r" for xs
    using closest_point_hit_Min [OF k1 that(1) assms(6) that(2)] .
  have "pt_vertid r = snd (snd (pick_key r))" for r by (simp add: pick_key_def)
  then have m: "pt_vertid (xs ! closest_point_hit (maxMeshPicks K) ?n xs) =
      snd (snd (Min (pick_key ` set (take k xs))))"
    if "k \<le> length xs" "\<forall>r\<in>set (take k xs). no_NaN r" for xs
    using key [OF that] by simp
  show ?thesis
    using v m [OF assms(7,8)] m [of rs] assms(8) by auto
qed

theorem point_pick_witness:
  "\<exists>s'. PickVertex example_consts example_gpu example_externals example_replay 0 100 100
          (example_mesh PointList) 50 50 = Inr (21, s')
     \<and> HasExt_ARB_compute_shader example_replay
     \<and> \<not> snd (meshMode_switch (topology (position (example_mesh PointList))))
     \<and> 0 < hdr_numResults (pick_results (gl s'))
     \<and> 0 < maxMeshPicks example_consts
     \<and> (3::nat) = unat (RDCMIN (maxMeshPicks example_consts) (hdr_numResults (pick_results (gl s'))))
     \<and> 3 \<le> length (as_point_results (pick_results (gl s')))
     \<and> (\<forall>r\<in>set (take 3 (as_point_results (pick_results (gl s')))). no_NaN r)
     \<and> (21::u32) = snd (snd (Min (pick_key ` set (take 3 (as_point_results (pick_results (gl s')))))))"
proof -
  have ext: "HasExt_ARB_compute_shader example_replay" by (simp add: example_replay_def)
  have st: "vertexByteStride (position (example_mesh PointList)) \<noteq> 0"
    by (simp add: example_mesh_def)
  have pt: "\<not> snd (meshMode_switch (topology (position (example_mesh PointList))))"
    by (simp add: example_mesh_def)
  have res: "resolve_pick example_consts False rp example_picks = 21" for rp
    by (simp add: resolve_pick_def example_picks_def closest_point_hit_def closer_point_def
        float_less_def float_eq_def RDCMIN_def example_consts_def upt_rec)
  from PickVertex_no_crash [OF ext st, of example_consts example_gpu example_externals 0 100 100 50 50]
  obtain s' where
    r: "PickVertex example_consts example_gpu example_externals example_replay 0 100 100
          (example_mesh PointList) 50 50 = Inr (21, s')"
    and p: "pick_results (gl s') = example_picks"
    using pt by (auto simp: example_gpu_def res)
  have h: "0 < hdr_numResults (pick_results (gl s'))" "0 < maxMeshPicks example_consts"
    "(3::nat) = unat (RDCMIN (maxMeshPicks example_consts) (hdr_numResults (pick_results (gl s'))))"
    "3 \<le> length (as_point_results (pick_results (gl s')))"
    "\<forall>r\<in>set (take 3 (as_point_results (pick_results (gl s')))). no_NaN r"
    by (simp_all add: p example_picks_def example_consts_def RDCMIN_def no_NaN_def)
  from point_pick_is_lexicographic_minimum [OF r ext pt h]
  have "(21::u32) = snd (snd (Min (pick_key ` set (take 3 (as_point_results (pick_results (gl s')))))))"
    by blast
  with r ext pt h show ?thesis by blast
qed

text \<open>
  C4 as stated fails when a distance is a NaN. Two result buffers hold the same two
  candidates, vertex 5 with a NaN distance and vertex 6 with distance 1, in opposite
  orders. No comparison with a NaN holds, so the first candidate of the buffer is kept
  in both: one call returns vertex 5 and the other returns vertex 6.
\<close>

theorem point_pick_with_NaN_follows_buffer_order:
  "(\<exists>s'. PickVertex example_consts example_nan_gpu example_externals example_replay 0 100 100
            (example_mesh PointList) 50 50 = Inr (5, s')
         \<and> pick_results (gl s') = example_nan_picks)
   \<and> (\<exists>s'. PickVertex example_consts example_nan_gpu_swapped example_externals example_replay
            0 100 100 (example_mesh PointList) 50 50 = Inr (6, s')
         \<and> pick_results (gl s') = example_nan_picks_swapped)
   \<and> hdr_numResults example_nan_picks = hdr_numResults example_nan_picks_swapped
   \<and> set (as_point_results example_nan_picks) = set (as_point_results example_nan_picks_swapped)
   \<and> pt_len (as_point_results example_nan_picks ! 0) = NaN"
proof -
  have ext: "HasExt_ARB_compute_shader example_replay" by (simp add: example_replay_def)
  have st: "vertexByteStride (position (example_mesh PointList)) \<noteq> 0"
    by (simp add: example_mesh_def)
  have pt: "\<not> snd (meshMode_switch (topology (position (example_mesh PointList))))"
    by (simp add: example_mesh_def)
  have res: "resolve_pick example_consts False rp example_nan_picks = 5"
    "resolve_pick example_consts False rp example_nan_picks_swapped = 6" for rp
    by (simp_all add: resolve_pick_def example_nan_picks_def example_nan_picks_swapped_def
        closest_point_hit_def closer_point_def float_less_def float_eq_def RDCMIN_def
        example_consts_def upt_rec)
  from PickVertex_no_crash [OF ext st, of example_consts example_nan_gpu example_externals
      0 100 100 50 50]
  have 1: "\<exists>s'. PickVertex example_consts example_nan_gpu example_externals example_replay 0 100 100
            (example_mesh PointList) 50 50 = Inr (5, s')
         \<and> pick_results (gl s') = example_nan_picks"
    using pt by (auto simp: example_nan_gpu_def res)
  from PickVertex_no_crash [OF ext st, of example_consts example_nan_gpu_swapped example_externals
      0 100 100 50 50]
  have 2: "\<exists>s'. PickVertex example_consts example_nan_gpu_swapped example_externals example_replay
            0 100 100 (example_mesh PointList) 50 50 = Inr (6, s')
         \<and> pick_results (gl s') = example_nan_picks_swapped"
    using pt by (auto simp: example_nan_gpu_swapped_def res)
  have 3: "hdr_numResults example_nan_picks = hdr_numResults example_nan_picks_swapped"
    "set (as_point_results example_nan_picks) = set (as_point_results example_nan_picks_swapped)"
    "pt_len (as_point_results example_nan_picks ! 0) = NaN"
    by (auto simp: example_nan_picks_def example_nan_picks_swapped_def)
  from 1 2 3 show ?thesis by blast
qed

text \<open>
  C2 at a concrete result buffer: three candidates whose intersection points are at
  distances 5, 1 and 3 from the ray origin. The loop compares every candidate with the
  distance of the first one, which is never updated, so the last candidate nearer than
  the first is kept: the call returns vertex 12 (distance 3), although the candidate of
  vertex 11 (distance 1) is nearer.
\<close>

theorem triangle_pick_returns_farther_candidate:
  "(\<exists>s'. PickVertex example_consts example_gpu example_externals example_replay 0 100 100
            (example_mesh TriangleList) 50 50 = Inr (12, s'))
   \<and> closest_triangle_hit (maxMeshPicks example_consts) (0, 0, 0) (hdr_numResults example_picks)
        (as_triangle_results example_picks) = 2
   \<and> tri_vertid (as_triangle_results example_picks ! 2) = 12
   \<and> tri_vertid (as_triangle_results example_picks ! 1) = 11
   \<and> Length (vec3_minus (intersectionPoint (as_triangle_results example_picks ! 1)) (0, 0, 0))
       < Length (vec3_minus (intersectionPoint (as_triangle_results example_picks ! 2)) (0, 0, 0))"
proof -
  have ext: "HasExt_ARB_compute_shader example_replay" by (simp add: example_replay_def)
  have st: "vertexByteStride (position (example_mesh TriangleList)) \<noteq> 0"
    by (simp add: example_mesh_def)
  have hit: "closest_triangle_hit (maxMeshPicks example_consts) (0, 0, 0)
      (hdr_numResults example_picks) (as_triangle_results example_picks) = 2"
    by (simp add: closest_triangle_hit_def example_picks_def example_consts_def RDCMIN_def
        Length_def vec3_minus_def upt_rec)
  have res: "resolve_pick example_consts True (0, 0, 0) example_picks = 12"
    unfolding resolve_pick_def using hit by (simp add: example_picks_def)
  from PickVertex_no_crash [OF ext st, of example_consts example_gpu example_externals 0 100 100 50 50]
  have "\<exists>s'. PickVertex example_consts example_gpu example_externals example_replay 0 100 100
            (example_mesh TriangleList) 50 50 = Inr (12, s')"
    by (auto simp: example_gpu_def example_externals_def example_mesh_def res)
  moreover have "Length (vec3_minus (intersectionPoint (as_triangle_results example_picks ! 1)) (0, 0, 0))
       < Length (vec3_minus (intersectionPoint (as_triangle_results example_picks ! 2)) (0, 0, 0))"
    by (simp add: example_picks_def Length_def vec3_minus_def)
  ultimately show ?thesis using hit by (simp add: example_picks_def)
qed

end
